theory Spec2Isabelle
  imports Complex_Main "HOL-Library.Multiset"
begin

section \<open>Memory store (services/memoryService.ts)\<close>

text \<open>
  A \<open>MemoryNode\<close> of \<open>types.ts\<close>. The optional \<open>isPinned\<close> is only ever tested for
  truthiness, so a missing flag is the value \<open>False\<close>. Timestamps are the integers of
  \<open>Date.now()\<close>; embedding components and relevance scores are numbers, taken as reals.
\<close>

datatype MemoryType = user_fact | interaction | system_note

record MemoryNode =
  mem_id :: string
  content :: string
  embedding :: "real list"
  timestamp :: int
  mem_type :: MemoryType
  relevance :: real
  tags :: "string list"
  isPinned :: bool

text \<open>
  The service object: the in-memory array \<open>memories\<close> and the value kept under
  \<open>STORAGE_KEY\<close> in \<open>localStorage\<close> (\<open>None\<close> when the key is absent).
\<close>

record MemoryService =
  memories :: "MemoryNode list"
  stored :: "MemoryNode list option"

text \<open>
  An exception value as the code inspects it: \<open>error.message\<close> and \<open>error.status\<close>,
  either of which may be missing.
\<close>

record JsError =
  err_message :: "string option"
  err_status :: "string option"

text \<open>The \<open>TypeError\<close> of reading the property \<open>field\<close> of \<open>undefined\<close>.\<close>

definition typeError :: "string \<Rightarrow> JsError" where
  "typeError field =
     \<lparr>err_message = Some (''Cannot read properties of undefined (reading '' @ [CHR 0x27] @
                            field @ [CHR 0x27] @ '')''),
      err_status = None\<rparr>"

text \<open>
  What a service reads from its surroundings: whether \<open>window\<close> is defined, and
  whether \<open>localStorage.setItem\<close> throws for a given value (quota exceeded), and
  with which exception.
\<close>

record 'a StorageEnv =
  hasWindow :: bool
  setItemThrows :: "'a \<Rightarrow> JsError option"

definition MAX_MEMORIES :: nat where
  "MAX_MEMORIES = 200"

text \<open>
  \<open>xs.sort((a, b) => b.timestamp - a.timestamp)\<close>: a stable sort, most recent first.
\<close>

definition sortByTimestampDesc :: "MemoryNode list \<Rightarrow> MemoryNode list" where
  "sortByTimestampDesc xs = sort_key (\<lambda>m. - timestamp m) xs"

text \<open>The body of \<open>if (this.memories.length > MAX_MEMORIES)\<close> in \<open>saveMemories\<close>.\<close>

definition evict :: "MemoryNode list \<Rightarrow> MemoryNode list" where
  "evict ms =
     (let pinned = filter isPinned ms;
          unpinned = sortByTimestampDesc (filter (\<lambda>m. \<not> isPinned m) ms);
          spaceForUnpinned = nat (max 0 (int MAX_MEMORIES - int (length pinned)));
          unpinned' = take spaceForUnpinned unpinned
      in sortByTimestampDesc (pinned @ unpinned'))"

text \<open>
  \<open>saveMemories\<close>: nothing without a window; otherwise evict when over capacity and
  write the collection. A throwing \<open>setItem\<close> is caught and logged: the array keeps the
  evicted contents, the stored value is not replaced.
\<close>

definition saveMemories :: "MemoryNode list StorageEnv \<Rightarrow> MemoryService \<Rightarrow> MemoryService" where
  "saveMemories env s =
     (if \<not> hasWindow env then s
      else
        let s' = (if length (memories s) > MAX_MEMORIES
                  then s\<lparr>memories := evict (memories s)\<rparr> else s)
        in if setItemThrows env (memories s') \<noteq> None then s'
           else s'\<lparr>stored := Some (memories s')\<rparr>)"

text \<open>\<open>togglePin\<close>: flips the flag of the first node with the id, then persists.\<close>

fun flipFirst :: "string \<Rightarrow> MemoryNode list \<Rightarrow> MemoryNode list option" where
  "flipFirst i [] = None"
| "flipFirst i (m # ms) =
     (if mem_id m = i then Some (m\<lparr>isPinned := \<not> isPinned m\<rparr> # ms)
      else map_option ((#) m) (flipFirst i ms))"

definition togglePin :: "MemoryNode list StorageEnv \<Rightarrow> string \<Rightarrow> MemoryService \<Rightarrow> MemoryService" where
  "togglePin env i s =
     (case flipFirst i (memories s) of
        None \<Rightarrow> s
      | Some ms \<Rightarrow> saveMemories env (s\<lparr>memories := ms\<rparr>))"


definition deleteMemory :: "MemoryNode list StorageEnv \<Rightarrow> string \<Rightarrow> MemoryService \<Rightarrow> MemoryService" where
  "deleteMemory env i s =
     saveMemories env (s\<lparr>memories := filter (\<lambda>m. mem_id m \<noteq> i) (memories s)\<rparr>)"


text \<open>
  \<open>cosineSimilarity\<close>: one pass over the indices accumulating \<open>dotProduct\<close>,
  \<open>magA\<close> and \<open>magB\<close>. The numbers are taken as reals here, so the rounding of
  the source's double arithmetic is not part of this definition.
\<close>

definition cosineSimilarity :: "real list \<Rightarrow> real list \<Rightarrow> real" where
  "cosineSimilarity vecA vecB =
     (if length vecA \<noteq> length vecB then 0
      else
        let (dotProduct, magA, magB) =
              foldl (\<lambda>(d, ma, mb) (a, b). (d + a * b, ma + a * a, mb + b * b))
                (0, 0, 0) (zip vecA vecB);
            magnitude = sqrt magA * sqrt magB
        in if magnitude = 0 then 0 else dotProduct / magnitude)"

text \<open>
  \<open>getEmbedding\<close> of \<open>geminiService.ts\<close>. The parameter \<open>embedder\<close> stands for
  \<open>getClient()\<close> followed by \<open>ai.models.embedContent\<close>: it throws (\<open>Inl\<close>), or
  returns a result whose \<open>embedding?.values\<close> is missing (\<open>Inr None\<close>) or present.
  Every exception is caught and turned into \<open>null\<close>.
\<close>

type_synonym Embedder = "string \<Rightarrow> JsError + real list option"

definition getEmbedding :: "Embedder \<Rightarrow> string \<Rightarrow> real list option" where
  "getEmbedding embedder text =
     (case embedder text of
        Inl e \<Rightarrow> None
      | Inr None \<Rightarrow> None
      | Inr (Some values) \<Rightarrow> Some values)"

text \<open>
  \<open>addMemory\<close>. \<open>now\<close> is \<open>Date.now()\<close> and \<open>newId\<close> the string
  \<open>mem-<now>-<random>\<close> built from it. The result is the returned node (or
  \<open>null\<close>) and the service afterwards.
\<close>

definition addMemory ::
  "MemoryNode list StorageEnv \<Rightarrow> Embedder \<Rightarrow> int \<Rightarrow> string \<Rightarrow>
   string \<Rightarrow> MemoryType \<Rightarrow> string list \<Rightarrow> MemoryService \<Rightarrow>
   MemoryNode option \<times> MemoryService" where
  "addMemory env embedder now newId c ty tgs s =
     (case getEmbedding embedder c of
        None \<Rightarrow> (None, s)
      | Some e \<Rightarrow>
          let newNode = \<lparr>mem_id = newId, content = c, embedding = e, timestamp = now,
                           mem_type = ty, relevance = 0, tags = tgs, isPinned = False\<rparr>
          in (Some newNode, saveMemories env (s\<lparr>memories := newNode # memories s\<rparr>)))"

text \<open>
  \<open>xs.slice(0, limit)\<close> for an integer \<open>limit\<close>: a negative end counts from the
  end of the array.
\<close>

definition slice0 :: "int \<Rightarrow> 'a list \<Rightarrow> 'a list" where
  "slice0 limit xs =
     (if limit < 0 then take (nat (max 0 (int (length xs) + limit))) xs
      else take (nat limit) xs)"

text \<open>\<open>xs.sort((a, b) => b.relevance - a.relevance)\<close>: stable, highest relevance first.\<close>

definition sortByRelevanceDesc :: "MemoryNode list \<Rightarrow> MemoryNode list" where
  "sortByRelevanceDesc xs = sort_key (\<lambda>m. - relevance m) xs"

definition search ::
  "Embedder \<Rightarrow> string \<Rightarrow> int \<Rightarrow> real \<Rightarrow> MemoryService \<Rightarrow> MemoryNode list" where
  "search embedder query limit minSimilarity s =
     (if length (memories s) = 0 then []
      else
        case getEmbedding embedder query of
          None \<Rightarrow> []
        | Some queryEmbedding \<Rightarrow>
            let scored = map (\<lambda>mem. mem\<lparr>relevance :=
                                cosineSimilarity queryEmbedding (embedding mem)\<rparr>) (memories s)
            in slice0 limit
                 (sortByRelevanceDesc (filter (\<lambda>mem. relevance mem \<ge> minSimilarity) scored)))"

definition getRecent :: "int \<Rightarrow> MemoryService \<Rightarrow> MemoryNode list" where
  "getRecent limit s = slice0 limit (sortByTimestampDesc (memories s))"

subsection \<open>Sample stores\<close>


definition browserEnv :: "MemoryNode list StorageEnv" where
  "browserEnv = \<lparr>hasWindow = True, setItemThrows = (\<lambda>_. None)\<rparr>"



definition emptyStore :: MemoryService where
  "emptyStore = \<lparr>memories = [], stored = None\<rparr>"

text \<open>Embedding providers: one that throws, one without values, one that answers.\<close>

definition throwingEmbedder :: Embedder where
  "throwingEmbedder text = Inl \<lparr>err_message = Some ''fetch failed'', err_status = None\<rparr>"

definition silentEmbedder :: Embedder where
  "silentEmbedder text = Inr None"

definition axisEmbedder :: Embedder where
  "axisEmbedder text = Inr (Some (if text = ''unrelated'' then [0, 1] else [1, 0]))"

text \<open>The store after adding "User prefers dark mode" and then an unrelated note.\<close>

definition darkModeStore :: MemoryService where
  "darkModeStore =
     snd (addMemory browserEnv axisEmbedder 2000 ''mem-2000-bbbbb'' ''unrelated'' system_note []
       (snd (addMemory browserEnv axisEmbedder 1000 ''mem-1000-aaaaa''
          ''User prefers dark mode'' user_fact [] emptyStore)))"


section \<open>Retry wrapper (services/geminiService.ts)\<close>

text \<open>
  \<open>String.prototype.toLowerCase\<close> on the ASCII letters, \<open>startsWith\<close> and
  \<open>includes\<close>. The three needles of \<open>withRetry\<close> are ASCII and contain no letter
  that a non-ASCII character lowers to.
\<close>

definition toLowerChar :: "char \<Rightarrow> char" where
  "toLowerChar c =
     (case map_of (zip ''ABCDEFGHIJKLMNOPQRSTUVWXYZ'' ''abcdefghijklmnopqrstuvwxyz'') c of
        None \<Rightarrow> c
      | Some l \<Rightarrow> l)"

definition toLowerCase :: "string \<Rightarrow> string" where
  "toLowerCase s = map toLowerChar s"

fun startsWith :: "string \<Rightarrow> string \<Rightarrow> bool" where
  "startsWith s [] = True"
| "startsWith [] (p # ps) = False"
| "startsWith (c # cs) (p # ps) = (c = p \<and> startsWith cs ps)"

fun includes_str :: "string \<Rightarrow> string \<Rightarrow> bool" where
  "includes_str [] needle = (needle = [])"
| "includes_str (c # cs) needle = (startsWith (c # cs) needle \<or> includes_str cs needle)"

text \<open>The classification in the \<open>catch\<close> block of \<open>withRetry\<close>.\<close>

definition isRateLimit :: "JsError \<Rightarrow> bool" where
  "isRateLimit error =
     (let errorMsg = (case err_message error of None \<Rightarrow> [] | Some m \<Rightarrow> toLowerCase m)
      in includes_str errorMsg ''429'' \<or>
         includes_str errorMsg ''quota'' \<or>
         includes_str errorMsg ''resource_exhausted'' \<or>
         err_status error = Some ''RESOURCE_EXHAUSTED'')"

text \<open>
  \<open>withRetry(fn, maxRetries)\<close>. The operation \<open>fn\<close> is effectful: it takes the state
  of the world and returns its outcome (\<open>Inl\<close> a thrown error, \<open>Inr\<close> a value) with the
  state afterwards. The loop variable \<open>retries\<close> is the number of attempts already made,
  so the result records \<open>retries + 1\<close> attempts when the loop is left. The wait between
  attempts (\<open>initialDelay * 2^retries\<close> plus jitter) changes no value and is left out.
\<close>

function withRetryLoop ::
  "('w \<Rightarrow> (JsError + 'a) \<times> 'w) \<Rightarrow> nat \<Rightarrow> nat \<Rightarrow> 'w \<Rightarrow> (JsError + 'a) \<times> nat \<times> 'w" where
  "withRetryLoop fn maxRetries retries w =
     (let (r, w') = fn w in
      case r of
        Inr v \<Rightarrow> (Inr v, retries + 1, w')
      | Inl error \<Rightarrow>
          if isRateLimit error \<and> retries < maxRetries
          then withRetryLoop fn maxRetries (retries + 1) w'
          else (Inl error, retries + 1, w'))"
  by pat_completeness auto
termination
  by (relation "measure (\<lambda>(fn, maxRetries, retries, w). maxRetries - retries)") auto

definition withRetry ::
  "('w \<Rightarrow> (JsError + 'a) \<times> 'w) \<Rightarrow> nat \<Rightarrow> 'w \<Rightarrow> (JsError + 'a) \<times> nat \<times> 'w" where
  "withRetry fn maxRetries w = withRetryLoop fn maxRetries 0 w"

definition defaultMaxRetries :: nat where
  "defaultMaxRetries = 4"

subsection \<open>Sample operations\<close>

text \<open>The world is a call counter; the operations fail on every call.\<close>

definition quotaError :: JsError where
  "quotaError = \<lparr>err_message = Some ''Quota exceeded (429)'', err_status = None\<rparr>"

definition alwaysRateLimited :: "nat \<Rightarrow> (JsError + string) \<times> nat" where
  "alwaysRateLimited n = (Inl quotaError, n + 1)"

definition keyError :: JsError where
  "keyError = \<lparr>err_message = Some ''API key not valid'', err_status = Some ''INVALID_ARGUMENT''\<rparr>"

definition alwaysInvalid :: "nat \<Rightarrow> (JsError + string) \<times> nat" where
  "alwaysInvalid n = (Inl keyError, n + 1)"

text \<open>
  The outcome of the \<open>(k+1)\<close>-th call of \<open>fn\<close> from the state \<open>w\<close>, the \<open>k\<close> calls
  before it having been made.
\<close>

definition nthAttempt :: "('w \<Rightarrow> (JsError + 'a) \<times> 'w) \<Rightarrow> 'w \<Rightarrow> nat \<Rightarrow> (JsError + 'a) \<times> 'w" where
  "nthAttempt fn w k = fn (((\<lambda>u. snd (fn u)) ^^ k) w)"

section \<open>Credential profiles (services/mcpRouter.ts)\<close>

text \<open>The platform tags \<open>'google'\<close>, \<open>'vertex'\<close>, ... of \<open>types.ts\<close>.\<close>

datatype McpPlatform =
  Google | Vertex | Openai | Anthropic | Xai | Deepseek | Huggingface | Replicate | Custom

record McpProfile =
  prof_id :: string
  prof_name :: string
  key :: string
  isActive :: bool
  platform :: McpPlatform

text \<open>
  The router object: the array \<open>profiles\<close> and the value under its storage key.
\<close>

record RealtimeMcpRouter =
  profiles :: "McpProfile list"
  storedProfiles :: "McpProfile list option"

text \<open>
  \<open>saveProfiles\<close> has no \<open>try\<close>: an exception of \<open>setItem\<close> reaches the caller, after
  the array has been changed. The first component is that exception, if any.
\<close>

definition saveProfiles ::
  "McpProfile list StorageEnv \<Rightarrow> RealtimeMcpRouter \<Rightarrow> JsError option \<times> RealtimeMcpRouter" where
  "saveProfiles env s =
     (if \<not> hasWindow env then (None, s)
      else case setItemThrows env (profiles s) of
             Some e \<Rightarrow> (Some e, s)
           | None \<Rightarrow> (None, s\<lparr>storedProfiles := Some (profiles s)\<rparr>))"

text \<open>\<open>String.prototype.trim\<close>, on the ASCII white space.\<close>

definition isWhiteSpace :: "char \<Rightarrow> bool" where
  "isWhiteSpace c = (c \<in> set [CHR 0x09, CHR 0x0A, CHR 0x0B, CHR 0x0C, CHR 0x0D, CHR 0x20])"

definition trim :: "string \<Rightarrow> string" where
  "trim s = rev (dropWhile isWhiteSpace (rev (dropWhile isWhiteSpace s)))"

text \<open>
  \<open>addProfile\<close>; \<open>uuid\<close> is the value of \<open>crypto.randomUUID()\<close>. The result is the
  returned profile, or the exception of \<open>saveProfiles\<close>, and the router afterwards.
\<close>

definition addProfile ::
  "McpProfile list StorageEnv \<Rightarrow> string \<Rightarrow> string \<Rightarrow> string \<Rightarrow> McpPlatform \<Rightarrow>
   RealtimeMcpRouter \<Rightarrow> (JsError + McpProfile) \<times> RealtimeMcpRouter" where
  "addProfile env uuid name k pf s =
     (let isFirst = (length (profiles s) = 0);
          finalPlatform =
            (if pf = Custom \<or> pf = Google
             then (if startsWith (trim k) ''hf_'' then Huggingface
                   else if startsWith (trim k) ''sk-'' then Openai
                   else pf)
             else pf);
          newProfile = \<lparr>prof_id = uuid, prof_name = name, key = k, isActive = isFirst,
                         platform = finalPlatform\<rparr>;
          (thrown, s') = saveProfiles env (s\<lparr>profiles := profiles s @ [newProfile]\<rparr>)
      in (case thrown of Some e \<Rightarrow> Inl e | None \<Rightarrow> Inr newProfile, s'))"

definition removeProfile ::
  "McpProfile list StorageEnv \<Rightarrow> string \<Rightarrow> RealtimeMcpRouter \<Rightarrow>
   JsError option \<times> RealtimeMcpRouter" where
  "removeProfile env i s =
     saveProfiles env (s\<lparr>profiles := filter (\<lambda>p. prof_id p \<noteq> i) (profiles s)\<rparr>)"

text \<open>\<open>setActiveProfile(id)\<close> with \<open>id: string | null\<close>; \<open>None\<close> is \<open>null\<close>.\<close>

definition setActiveProfile ::
  "McpProfile list StorageEnv \<Rightarrow> string option \<Rightarrow> RealtimeMcpRouter \<Rightarrow>
   JsError option \<times> RealtimeMcpRouter" where
  "setActiveProfile env i s =
     saveProfiles env
       (s\<lparr>profiles := map (\<lambda>p. p\<lparr>isActive := (Some (prof_id p) = i)\<rparr>) (profiles s)\<rparr>)"

text \<open>
  Sequences of calls on the router. \<open>freshIds\<close> says that every \<open>randomUUID()\<close> of
  the sequence differs from the ids of the profiles present at that moment.
\<close>

datatype RouterCall =
  AddProfile string string string McpPlatform
| RemoveProfile string
| SetActiveProfile "string option"

fun applyCall ::
  "McpProfile list StorageEnv \<Rightarrow> RouterCall \<Rightarrow> RealtimeMcpRouter \<Rightarrow> RealtimeMcpRouter" where
  "applyCall env (AddProfile uuid name k pf) s = snd (addProfile env uuid name k pf s)"
| "applyCall env (RemoveProfile i) s = snd (removeProfile env i s)"
| "applyCall env (SetActiveProfile i) s = snd (setActiveProfile env i s)"

fun runCalls ::
  "McpProfile list StorageEnv \<Rightarrow> RouterCall list \<Rightarrow> RealtimeMcpRouter \<Rightarrow> RealtimeMcpRouter" where
  "runCalls env [] s = s"
| "runCalls env (c # cs) s = runCalls env cs (applyCall env c s)"

fun freshIds ::
  "McpProfile list StorageEnv \<Rightarrow> RouterCall list \<Rightarrow> RealtimeMcpRouter \<Rightarrow> bool" where
  "freshIds env [] s = True"
| "freshIds env (AddProfile uuid name k pf # cs) s =
     (uuid \<notin> set (map prof_id (profiles s)) \<and>
      freshIds env cs (applyCall env (AddProfile uuid name k pf) s))"
| "freshIds env (c # cs) s = freshIds env cs (applyCall env c s)"

definition activeCount :: "RealtimeMcpRouter \<Rightarrow> nat" where
  "activeCount s = length (filter isActive (profiles s))"

text \<open>The invariant: the ids are pairwise different and at most one flag is set.\<close>

definition routerInv :: "RealtimeMcpRouter \<Rightarrow> bool" where
  "routerInv s = (distinct (map prof_id (profiles s)) \<and> activeCount s \<le> 1)"

subsection \<open>Sample router session\<close>

definition profileEnv :: "McpProfile list StorageEnv" where
  "profileEnv = \<lparr>hasWindow = True, setItemThrows = (\<lambda>_. None)\<rparr>"

definition emptyRouter :: RealtimeMcpRouter where
  "emptyRouter = \<lparr>profiles = [], storedProfiles = None\<rparr>"

definition sampleCalls :: "RouterCall list" where
  "sampleCalls =
     [AddProfile ''u1'' ''main'' ''AIzaXYZ'' Google,
      AddProfile ''u2'' ''hub'' '' hf_abc'' Custom,
      SetActiveProfile (Some ''u2''),
      RemoveProfile ''u1'']"

section \<open>Connection router (services/mcpClient.ts)\<close>

datatype ConnStatus = Connected | Disconnected | Errored

record McpTool =
  tool_name :: string
  tool_description :: "string option"
  inputSchema :: string

record ContentBlock =
  cb_type :: string
  cb_text :: "string option"
  cb_data :: "string option"

text \<open>
  \<open>McpCallToolResult\<close> as \<open>callTool\<close> can return it: when the transport's answer has
  no \<open>result.content\<close> the answer itself is returned under that type, and then
  \<open>content\<close> is \<open>undefined\<close> (\<open>None\<close>).
\<close>

record McpCallToolResult =
  cr_content :: "ContentBlock list option"
  cr_isError :: bool

text \<open>
  The envelopes. \<open>params\<close> of a request is the pair of \<open>name\<close> and \<open>arguments\<close>;
  \<open>resp_error\<close> is \<open>response.error.message\<close> when \<open>response.error\<close> is present.
\<close>

record 'a JsonRpcRequest =
  rpc_method :: string
  params :: "(string \<times> 'a) option"
  req_id :: int

record RpcResult =
  res_tools :: "McpTool list option"
  res_content :: "ContentBlock list option"
  res_isError :: bool

record JsonRpcResponse =
  resp_error :: "string option"
  resp_result :: "RpcResult option"

text \<open>
  A connection holds a transport \<open>'t\<close>. What \<open>start\<close>, \<open>send\<close> and \<open>close\<close> of a
  transport do is given from outside, as functions on the state \<open>'w\<close> of the world;
  each may throw.
\<close>

record 't McpConnection =
  conn_id :: string
  transport :: 't
  tools :: "McpTool list"
  status :: ConnStatus
  conn_error :: "string option"

record ('t, 'a, 'w) Transports =
  t_start :: "'t \<Rightarrow> 'w \<Rightarrow> JsError option \<times> 'w"
  t_send :: "'t \<Rightarrow> 'a JsonRpcRequest \<Rightarrow> 'w \<Rightarrow> (JsError + JsonRpcResponse) \<times> 'w"
  t_close :: "'t \<Rightarrow> 'w \<Rightarrow> JsError option \<times> 'w"

text \<open>
  \<open>connections: Map<string, McpConnection>\<close>: the entries in insertion order.
  \<open>Map.set\<close> on a present key replaces the value where it stands, on a new key it
  appends; iteration (\<open>values()\<close>) follows this order.
\<close>

type_synonym 't Connections = "(string \<times> 't McpConnection) list"

definition mapSet :: "string \<Rightarrow> 'v \<Rightarrow> (string \<times> 'v) list \<Rightarrow> (string \<times> 'v) list" where
  "mapSet k v m =
     (if k \<in> set (map fst m) then map (\<lambda>(k', v'). if k' = k then (k, v) else (k', v')) m
      else m @ [(k, v)])"

definition mapDelete :: "string \<Rightarrow> (string \<times> 'v) list \<Rightarrow> (string \<times> 'v) list" where
  "mapDelete k m = filter (\<lambda>(k', v'). k' \<noteq> k) m"

definition mapValues :: "(string \<times> 'v) list \<Rightarrow> 'v list" where
  "mapValues m = map snd m"

definition registerSimulatedConnection ::
  "string \<Rightarrow> 't \<Rightarrow> McpTool list \<Rightarrow> 't Connections \<Rightarrow> 't Connections" where
  "registerSimulatedConnection i t ts conns =
     mapSet i \<lparr>conn_id = i, transport = t, tools = ts, status = Connected, conn_error = None\<rparr>
       conns"

definition listRequest :: "int \<Rightarrow> 'a JsonRpcRequest" where
  "listRequest now = \<lparr>rpc_method = ''tools/list'', params = None, req_id = now\<rparr>"

definition failedConnection :: "string \<Rightarrow> 't \<Rightarrow> string option \<Rightarrow> 't McpConnection" where
  "failedConnection i t msg =
     \<lparr>conn_id = i, transport = t, tools = [], status = Errored, conn_error = msg\<rparr>"

text \<open>
  \<open>registerConnection\<close>: start, ask for the tools, store the connection. Any throw
  inside the \<open>try\<close> (including the read of \<open>.tools\<close> of a missing \<open>result\<close>) stores
  the connection with status \<open>error\<close> and no tools.
\<close>

definition registerConnection ::
  "('t, 'a, 'w) Transports \<Rightarrow> int \<Rightarrow> string \<Rightarrow> 't \<Rightarrow> 't Connections \<Rightarrow> 'w \<Rightarrow>
   't Connections \<times> 'w" where
  "registerConnection ops now i t conns w =
     (case t_start ops t w of
        (Some e, w1) \<Rightarrow> (mapSet i (failedConnection i t (err_message e)) conns, w1)
      | (None, w1) \<Rightarrow>
          (case t_send ops t (listRequest now) w1 of
             (Inl e, w2) \<Rightarrow> (mapSet i (failedConnection i t (err_message e)) conns, w2)
           | (Inr response, w2) \<Rightarrow>
               (case resp_error response of
                  Some msg \<Rightarrow> (mapSet i (failedConnection i t (Some msg)) conns, w2)
                | None \<Rightarrow>
                    (case resp_result response of
                       None \<Rightarrow>
                         (mapSet i (failedConnection i t (err_message (typeError ''tools'')))
                            conns, w2)
                     | Some res \<Rightarrow>
                         (mapSet i \<lparr>conn_id = i, transport = t,
                                    tools = (case res_tools res of None \<Rightarrow> [] | Some ts \<Rightarrow> ts),
                                    status = Connected, conn_error = None\<rparr> conns, w2)))))"

text \<open>
  \<open>disconnect\<close>: the entry is deleted after \<open>close\<close> has returned; an exception of
  \<open>close\<close> (first component) leaves the map as it was.
\<close>

definition disconnect ::
  "('t, 'a, 'w) Transports \<Rightarrow> string \<Rightarrow> 't Connections \<Rightarrow> 'w \<Rightarrow>
   JsError option \<times> 't Connections \<times> 'w" where
  "disconnect ops i conns w =
     (case map_of conns i of
        None \<Rightarrow> (None, conns, w)
      | Some conn \<Rightarrow>
          (case t_close ops (transport conn) w of
             (Some e, w') \<Rightarrow> (Some e, conns, w')
           | (None, w') \<Rightarrow> (None, mapDelete i conns, w')))"

definition getAllTools :: "'t Connections \<Rightarrow> (McpTool \<times> string) list" where
  "getAllTools conns =
     concat (map (\<lambda>conn. if status conn = Connected
                          then map (\<lambda>t. (t, conn_id conn)) (tools conn) else [])
               (mapValues conns))"

text \<open>
  \<open>callTool\<close>. The condition of the scan, the scan (\<open>for ... break\<close>), the request, the
  conversion of the answer, and the whole.
\<close>

definition ownsTool :: "string \<Rightarrow> 't McpConnection \<Rightarrow> bool" where
  "ownsTool name conn = (status conn = Connected \<and> list_ex (\<lambda>t. tool_name t = name) (tools conn))"

definition findTarget :: "'t Connections \<Rightarrow> string \<Rightarrow> 't McpConnection option" where
  "findTarget conns name = find (ownsTool name) (mapValues conns)"

definition toolNotFound :: "string \<Rightarrow> JsError" where
  "toolNotFound name =
     \<lparr>err_message = Some (''Tool '' @ [CHR 0x27] @ name @ [CHR 0x27] @
                            '' not found in any active MCP connection.''),
      err_status = None\<rparr>"

definition callRequest :: "int \<Rightarrow> string \<Rightarrow> 'a \<Rightarrow> 'a JsonRpcRequest" where
  "callRequest now name args = \<lparr>rpc_method = ''tools/call'', params = Some (name, args), req_id = now\<rparr>"

definition toCallResult :: "string \<Rightarrow> JsonRpcResponse \<Rightarrow> McpCallToolResult" where
  "toCallResult name response =
     (case resp_error response of
        Some msg \<Rightarrow>
          \<lparr>cr_content = Some [\<lparr>cb_type = ''text'',
                                cb_text = Some (''Error calling '' @ name @ '': '' @ msg),
                                cb_data = None\<rparr>],
           cr_isError = True\<rparr>
      | None \<Rightarrow>
          (case resp_result response of
             None \<Rightarrow> \<lparr>cr_content = None, cr_isError = False\<rparr>
           | Some res \<Rightarrow>
               (case res_content res of
                  None \<Rightarrow> \<lparr>cr_content = None, cr_isError = False\<rparr>
                | Some c \<Rightarrow> \<lparr>cr_content = Some c, cr_isError = res_isError res\<rparr>)))"

definition callTool ::
  "('t, 'a, 'w) Transports \<Rightarrow> int \<Rightarrow> 't Connections \<Rightarrow> string \<Rightarrow> 'a \<Rightarrow> 'w \<Rightarrow>
   (JsError + McpCallToolResult) \<times> 'w" where
  "callTool ops now conns name args w =
     (case findTarget conns name of
        None \<Rightarrow> (Inl (toolNotFound name), w)
      | Some targetConn \<Rightarrow>
          (case t_send ops (transport targetConn) (callRequest now name args) w of
             (Inl e, w') \<Rightarrow> (Inl e, w')
           | (Inr response, w') \<Rightarrow> (Inr (toCallResult name response), w')))"

subsection \<open>Sample connections\<close>

text \<open>
  Transports are named by strings; the world is the log of the transports that were
  sent a request, with the tool asked for. Every transport answers with one text block.
\<close>

definition loggingTransports :: "(string, unit, (string \<times> string) list) Transports" where
  "loggingTransports =
     \<lparr>t_start = (\<lambda>t w. (None, w)),
      t_send = (\<lambda>t req w.
         (Inr \<lparr>resp_error = None,
               resp_result = Some \<lparr>res_tools = None,
                 res_content = Some [\<lparr>cb_type = ''text'', cb_text = Some t, cb_data = None\<rparr>],
                 res_isError = False\<rparr>\<rparr>,
          w @ [(t, case params req of None \<Rightarrow> [] | Some (n, a) \<Rightarrow> n)])),
      t_close = (\<lambda>t w. (None, w))\<rparr>"

definition toolX :: McpTool where
  "toolX = \<lparr>tool_name = ''X'', tool_description = None, inputSchema = ''{}''\<rparr>"

definition toolY :: McpTool where
  "toolY = \<lparr>tool_name = ''Y'', tool_description = None, inputSchema = ''{}''\<rparr>"

text \<open>Two packages registered one after the other, both with a tool \<open>X\<close>.\<close>

definition twoPackages :: "string Connections" where
  "twoPackages =
     registerSimulatedConnection ''pkg-b'' ''transport-b'' [toolX, toolY]
       (registerSimulatedConnection ''pkg-a'' ''transport-a'' [toolX] [])"

definition connA :: "string McpConnection" where
  "connA = \<lparr>conn_id = ''pkg-a'', transport = ''transport-a'', tools = [toolX],
            status = Connected, conn_error = None\<rparr>"

definition connB :: "string McpConnection" where
  "connB = \<lparr>conn_id = ''pkg-b'', transport = ''transport-b'', tools = [toolX, toolY],
            status = Connected, conn_error = None\<rparr>"

section \<open>Orchestration loop (services/geminiService.ts, runOverseerAgent)\<close>

text \<open>
  A function call of a model response. \<open>args\<close> may be missing; of its fields the code
  reads \<open>tasks\<close> (kept as an uninterpreted payload \<open>'ts\<close>), \<open>dispatches\<close> and the
  video parameters.
\<close>

record Dispatch =
  d_agent :: string
  d_prompt :: string

record 'ts CallArgs =
  arg_tasks :: "'ts option"
  arg_dispatches :: "Dispatch list option"
  arg_prompt :: "string option"
  arg_aspectRatio :: "string option"
  arg_resolution :: "string option"
  arg_modelId :: "string option"

record 'ts FunctionCall =
  fc_name :: string
  fc_args :: "'ts CallArgs option"
  fc_id :: "string option"

record GroundingChunk =
  web_uri :: "string option"
  web_title :: "string option"

text \<open>
  A model response: \<open>functionCalls\<close> (\<open>undefined\<close> and the empty array are both \<open>[]\<close>),
  the \<open>text\<close> (\<open>resp_text\<close>), and \<open>candidates?.[0]?.groundingMetadata?.groundingChunks\<close>.
\<close>

record 'ts ModelResponse =
  functionCalls :: "'ts FunctionCall list"
  resp_text :: "string option"
  groundingChunks :: "GroundingChunk list option"

record Part =
  part_type :: "string option"
  part_text :: string

datatype FrResult = FrContent "Part list" | FrError string

record FunctionResponse =
  fr_name :: string
  fr_response :: FrResult
  fr_id :: "string option"

datatype ChatMessage = Prompt string | ToolResults "FunctionResponse list"

record VideoConfig =
  v_prompt :: "string option"
  v_aspectRatio :: string
  v_resolution :: string
  v_modelId :: "string option"

record DispatchResult =
  r_agent :: string
  r_prompt :: string
  r_status :: string
  r_response :: "string option"
  r_error :: "string option"

text \<open>The variables \<open>tasks\<close>, \<open>videoUri\<close> and \<open>image\<close> of \<open>runOverseerAgent\<close>.\<close>

record 'task Outputs =
  tasks :: "'task list"
  videoUri :: string
  image :: string

text \<open>
  What the loop calls outside itself, each as a function on the state \<open>'w\<close> of the
  world that may throw (\<open>Inl\<close>): \<open>chat.sendMessage\<close>; the sub-agents that return a text
  (\<open>runHrManagerAgent\<close>, ..., \<open>runSpeedsterAgent\<close>, and \<open>runNavigatorAgent\<close> with its
  \<open>.text\<close>), by agent name and prompt; \<open>generateImage\<close> (model and data) and
  \<open>generateVideo\<close> (uri); \<open>mcpClient.callTool\<close> (\<open>callTool\<close> above, applied to the
  transports and the connection map). \<open>newTasks\<close> stands for the mapping of
  \<open>args.tasks\<close> to \<open>Task\<close> objects, and the two \<open>stringify\<close> functions for
  \<open>JSON.stringify\<close>.
\<close>

record ('w, 'ts, 'task) Engine =
  sendMessage :: "ChatMessage \<Rightarrow> 'w \<Rightarrow> (JsError + 'ts ModelResponse) \<times> 'w"
  runTextAgent :: "string \<Rightarrow> string \<Rightarrow> 'w \<Rightarrow> (JsError + string) \<times> 'w"
  generateImage :: "string \<Rightarrow> 'w \<Rightarrow> (JsError + string \<times> string) \<times> 'w"
  generateVideo :: "VideoConfig \<Rightarrow> 'w \<Rightarrow> (JsError + string) \<times> 'w"
  mcpCallTool :: "string \<Rightarrow> 'ts CallArgs option \<Rightarrow> 'w \<Rightarrow> (JsError + McpCallToolResult) \<times> 'w"
  newTasks :: "'ts \<Rightarrow> 'task list"
  stringifyResults :: "DispatchResult list \<Rightarrow> string"
  stringifyBlock :: "ContentBlock \<Rightarrow> string"

text \<open>
  \<open>await Promise.all(xs.map(async x => ...))\<close>: one result per element, in the order
  of the elements. The effects of the callbacks are threaded from left to right.
\<close>

fun promiseAll :: "('x \<Rightarrow> 's \<Rightarrow> 'y \<times> 's) \<Rightarrow> 'x list \<Rightarrow> 's \<Rightarrow> 'y list \<times> 's" where
  "promiseAll f [] s = ([], s)"
| "promiseAll f (x # xs) s =
     (let (y, s') = f x s; (ys, s'') = promiseAll f xs s' in (y # ys, s''))"

definition textAgents :: "string list" where
  "textAgents = [''HR_MANAGER'', ''INTEGRATION_LEAD'', ''RESEARCHER'', ''DATA_ANALYST'',
                 ''DEVELOPER'', ''ANTIGRAVITY'', ''NAVIGATOR'', ''SPEEDSTER'']"

text \<open>
  The \<open>switch (d.agent)\<close> inside the inner \<open>try\<close>: the value of \<open>output\<close>, or the
  exception. An agent name without a \<open>case\<close> leaves \<open>output\<close> empty.
\<close>

definition runAgentFor ::
  "('w, 'ts, 'task) Engine \<Rightarrow> Dispatch \<Rightarrow> 'w \<times> 'task Outputs \<Rightarrow>
   (JsError + string) \<times> 'w \<times> 'task Outputs" where
  "runAgentFor eng d st =
     (case st of (w, out) \<Rightarrow>
        if d_agent d \<in> set textAgents then
          (case runTextAgent eng (d_agent d) (d_prompt d) w of (r, w') \<Rightarrow> (r, w', out))
        else if d_agent d = ''VISIONARY'' then
          (case generateImage eng (d_prompt d) w of
             (Inl e, w') \<Rightarrow> (Inl e, w', out)
           | (Inr (model, data), w') \<Rightarrow>
               (Inr (''Visual manifest complete via '' @ model @
                     ''. Data available in asset preview.''),
                w', out\<lparr>image := data\<rparr>))
        else if d_agent d = ''DIRECTOR'' then
          (case generateVideo eng
                  \<lparr>v_prompt = Some (d_prompt d), v_aspectRatio = ''16:9'',
                   v_resolution = ''720p'', v_modelId = None\<rparr> w of
             (Inl e, w') \<Rightarrow> (Inl e, w', out)
           | (Inr uri, w') \<Rightarrow>
               (Inr (''Video sequence rendered: '' @ uri), w', out\<lparr>videoUri := uri\<rparr>))
        else (Inr [], w, out))"

text \<open>One sub-dispatch with its \<open>try\<close>/\<open>catch\<close>: always a result object.\<close>

definition runDispatch ::
  "('w, 'ts, 'task) Engine \<Rightarrow> Dispatch \<Rightarrow> 'w \<times> 'task Outputs \<Rightarrow>
   DispatchResult \<times> 'w \<times> 'task Outputs" where
  "runDispatch eng d st =
     (case runAgentFor eng d st of
        (Inr output, st') \<Rightarrow>
          (\<lparr>r_agent = d_agent d, r_prompt = d_prompt d, r_status = ''SUCCESS'',
            r_response = Some output, r_error = None\<rparr>, st')
      | (Inl e, st') \<Rightarrow>
          (\<lparr>r_agent = d_agent d, r_prompt = d_prompt d, r_status = ''ERROR'',
            r_response = None, r_error = err_message e\<rparr>, st'))"

definition mappedPart :: "('w, 'ts, 'task) Engine \<Rightarrow> ContentBlock \<Rightarrow> Part" where
  "mappedPart eng c =
     \<lparr>part_type = None,
      part_text = (case cb_text c of
                     None \<Rightarrow> stringifyBlock eng c
                   | Some t \<Rightarrow> if t = [] then stringifyBlock eng c else t)\<rparr>"

text \<open>
  The body of the outer \<open>try\<close> for one function call, in its steps. Reading a field
  of a missing \<open>args\<close> throws a \<open>TypeError\<close>; \<open>&&\<close> reads \<open>args\<close> only when the
  name matches.
\<close>

definition taskListStep ::
  "('w, 'ts, 'task) Engine \<Rightarrow> 'ts FunctionCall \<Rightarrow> 'task Outputs \<Rightarrow> JsError + 'task Outputs" where
  "taskListStep eng call out =
     (if fc_name call = ''generate_task_list'' then
        (case fc_args call of
           None \<Rightarrow> Inl (typeError ''tasks'')
         | Some a \<Rightarrow>
             (case arg_tasks a of
                None \<Rightarrow> Inr out
              | Some ts \<Rightarrow> Inr (out\<lparr>tasks := tasks out @ newTasks eng ts\<rparr>)))
      else Inr out)"

text \<open>
  The condition \<open>call.name === 'parallel_dispatch' && args.dispatches\<close>: the
  dispatches when it holds, \<open>None\<close> when it does not.
\<close>

definition dispatchesOf :: "'ts FunctionCall \<Rightarrow> JsError + Dispatch list option" where
  "dispatchesOf call =
     (if fc_name call = ''parallel_dispatch'' then
        (case fc_args call of
           None \<Rightarrow> Inl (typeError ''dispatches'')
         | Some a \<Rightarrow> Inr (arg_dispatches a))
      else Inr None)"

text \<open>
  The \<open>generate_video\<close> step with its own \<open>try\<close>/\<open>catch\<close>, which only logs.
\<close>

definition orDefault :: "string option \<Rightarrow> string \<Rightarrow> string" where
  "orDefault v d = (case v of None \<Rightarrow> d | Some r \<Rightarrow> if r = [] then d else r)"

definition videoStep ::
  "('w, 'ts, 'task) Engine \<Rightarrow> 'ts FunctionCall \<Rightarrow> 'w \<times> 'task Outputs \<Rightarrow> 'w \<times> 'task Outputs" where
  "videoStep eng call st =
     (case st of (w, out) \<Rightarrow>
        if fc_name call = ''generate_video'' then
          (case fc_args call of
             None \<Rightarrow> (w, out)
           | Some a \<Rightarrow>
               (case generateVideo eng
                       \<lparr>v_prompt = arg_prompt a,
                        v_aspectRatio = orDefault (arg_aspectRatio a) ''16:9'',
                        v_resolution = orDefault (arg_resolution a) ''720p'',
                        v_modelId = arg_modelId a\<rparr> w of
                  (Inl e, w') \<Rightarrow> (w', out)
                | (Inr uri, w') \<Rightarrow> (w', out\<lparr>videoUri := uri\<rparr>)))
        else (w, out))"

definition toolStep ::
  "('w, 'ts, 'task) Engine \<Rightarrow> 'ts FunctionCall \<Rightarrow> 'w \<times> 'task Outputs \<Rightarrow>
   (JsError + FunctionResponse) \<times> 'w \<times> 'task Outputs" where
  "toolStep eng call st =
     (case st of (w, out) \<Rightarrow>
        (case mcpCallTool eng (fc_name call) (fc_args call) w of
           (Inl e, w') \<Rightarrow> (Inl e, w', out)
         | (Inr result, w') \<Rightarrow>
             (case cr_content result of
                None \<Rightarrow> (Inl (typeError ''map''), w', out)
              | Some blocks \<Rightarrow>
                  (Inr \<lparr>fr_name = fc_name call,
                        fr_response = FrContent (map (mappedPart eng) blocks),
                        fr_id = fc_id call\<rparr>, w', out))))"

definition handleCallTry ::
  "('w, 'ts, 'task) Engine \<Rightarrow> 'ts FunctionCall \<Rightarrow> 'w \<times> 'task Outputs \<Rightarrow>
   (JsError + FunctionResponse) \<times> 'w \<times> 'task Outputs" where
  "handleCallTry eng call st =
     (case st of (w, out) \<Rightarrow>
        (case taskListStep eng call out of
           Inl e \<Rightarrow> (Inl e, w, out)
         | Inr out1 \<Rightarrow>
             (case dispatchesOf call of
                Inl e \<Rightarrow> (Inl e, w, out1)
              | Inr (Some dispatches) \<Rightarrow>
                  (case promiseAll (runDispatch eng) dispatches (w, out1) of
                     (results, st') \<Rightarrow>
                       (Inr \<lparr>fr_name = fc_name call,
                             fr_response = FrContent
                               [\<lparr>part_type = Some ''text'',
                                 part_text = ''Parallel Thread Batch: '' @
                                   stringifyResults eng results\<rparr>],
                             fr_id = fc_id call\<rparr>, st'))
              | Inr None \<Rightarrow> toolStep eng call (videoStep eng call (w, out1)))))"

text \<open>
  With the outer \<open>catch\<close>: \<open>err.message || "Thread execution fault"\<close>.
\<close>

definition handleCall ::
  "('w, 'ts, 'task) Engine \<Rightarrow> 'ts FunctionCall \<Rightarrow> 'w \<times> 'task Outputs \<Rightarrow>
   FunctionResponse \<times> 'w \<times> 'task Outputs" where
  "handleCall eng call st =
     (case handleCallTry eng call st of
        (Inr fr, st') \<Rightarrow> (fr, st')
      | (Inl err, st') \<Rightarrow>
          (\<lparr>fr_name = fc_name call,
            fr_response = FrError
              (case err_message err of
                 None \<Rightarrow> ''Thread execution fault''
               | Some m \<Rightarrow> if m = [] then ''Thread execution fault'' else m),
            fr_id = fc_id call\<rparr>, st'))"

text \<open>
  The body of the \<open>while\<close> loop: execute every requested call, send all the results in
  one message, and receive the next response (or the exception of \<open>sendMessage\<close>).
  The pause \<open>turnThrottle\<close> and the caller's \<open>onConcurrencyChange\<close> notifications
  change no value of the loop and are left out.
\<close>

definition oneTurn ::
  "('w, 'ts, 'task) Engine \<Rightarrow> 'ts ModelResponse \<Rightarrow> 'w \<times> 'task Outputs \<Rightarrow>
   (JsError + 'ts ModelResponse) \<times> 'w \<times> 'task Outputs" where
  "oneTurn eng response st =
     (case promiseAll (handleCall eng) (functionCalls response) st of
        (functionResponses, w1, out1) \<Rightarrow>
          (case sendMessage eng (ToolResults functionResponses) w1 of
             (r, w2) \<Rightarrow> (r, w2, out1)))"

definition maxTurns :: nat where
  "maxTurns = 6"

text \<open>
  \<open>while (response.functionCalls && response.functionCalls.length > 0 && turns < 6)\<close>.
  The result is the last response (or the exception that left the loop), the number of
  times the body was entered, and the state.
\<close>

function overseerLoop ::
  "('w, 'ts, 'task) Engine \<Rightarrow> 'ts ModelResponse \<Rightarrow> nat \<Rightarrow> 'w \<times> 'task Outputs \<Rightarrow>
   (JsError + 'ts ModelResponse) \<times> nat \<times> 'w \<times> 'task Outputs" where
  "overseerLoop eng response turns st =
     (if functionCalls response \<noteq> [] \<and> turns < maxTurns
      then (case oneTurn eng response st of
              (Inl e, st') \<Rightarrow> (Inl e, turns + 1, st')
            | (Inr response', st') \<Rightarrow> overseerLoop eng response' (turns + 1) st')
      else (Inr response, turns, st))"
  by pat_completeness auto
termination
  by (relation "measure (\<lambda>(eng, response, turns, st). maxTurns - turns)") auto

text \<open>The response and state after \<open>k\<close> further turns, none of which throws.\<close>

fun afterTurns ::
  "('w, 'ts, 'task) Engine \<Rightarrow> nat \<Rightarrow> 'ts ModelResponse \<Rightarrow> 'w \<times> 'task Outputs \<Rightarrow>
   (JsError + 'ts ModelResponse) \<times> 'w \<times> 'task Outputs" where
  "afterTurns eng 0 response st = (Inr response, st)"
| "afterTurns eng (Suc k) response st =
     (case oneTurn eng response st of
        (Inl e, st') \<Rightarrow> (Inl e, st')
      | (Inr response', st') \<Rightarrow> afterTurns eng k response' st')"

text \<open>
  After the loop: the grounding links of the last response and the returned object.
\<close>

record 'task OverseerResult =
  res_text :: "string option"
  res_groundingLinks :: "(string \<times> string) list"
  res_tasks :: "'task list"
  res_videoUri :: string
  res_image :: string

definition groundingLinksOf :: "'ts ModelResponse \<Rightarrow> (string \<times> string) list" where
  "groundingLinksOf response =
     (case groundingChunks response of
        None \<Rightarrow> []
      | Some chunks \<Rightarrow>
          concat (map (\<lambda>chunk. case web_uri chunk of
                                  None \<Rightarrow> []
                                | Some u \<Rightarrow> if u = [] then []
                                            else [(orDefault (web_title chunk) ''Source'', u)])
                    chunks))"

definition noOutputs :: "'task Outputs" where
  "noOutputs = \<lparr>tasks = [], videoUri = [], image = []\<rparr>"

text \<open>
  One run of the function that \<open>runOverseerAgent\<close> hands to \<open>withRetry\<close>, from the
  first \<open>chat.sendMessage({ message: prompt })\<close> on. Building the client, the system
  instruction and the chat is part of what \<open>sendMessage\<close> of the engine stands for. The
  second component is the number of turns of the loop.
\<close>

definition overseerAttempt ::
  "('w, 'ts, 'task) Engine \<Rightarrow> string \<Rightarrow> 'w \<Rightarrow> (JsError + 'task OverseerResult) \<times> nat \<times> 'w" where
  "overseerAttempt eng prompt w =
     (case sendMessage eng (Prompt prompt) w of
        (Inl e, w') \<Rightarrow> (Inl e, 0, w')
      | (Inr response, w') \<Rightarrow>
          (case overseerLoop eng response 0 (w', noOutputs) of
             (Inl e, n, w'', out) \<Rightarrow> (Inl e, n, w'')
           | (Inr final, n, w'', out) \<Rightarrow>
               (Inr \<lparr>res_text = resp_text final,
                     res_groundingLinks = groundingLinksOf final,
                     res_tasks = tasks out, res_videoUri = videoUri out,
                     res_image = image out\<rparr>, n, w'')))"

text \<open>
  \<open>runOverseerAgent\<close>: that function under \<open>withRetry\<close> with the default
  \<open>maxRetries\<close>; a rate-limit error of any \<open>sendMessage\<close> starts the conversation
  again. The second component is the number of attempts.
\<close>

definition runOverseerAgent ::
  "('w, 'ts, 'task) Engine \<Rightarrow> string \<Rightarrow> 'w \<Rightarrow> (JsError + 'task OverseerResult) \<times> nat \<times> 'w" where
  "runOverseerAgent eng prompt w =
     withRetry (\<lambda>u. case overseerAttempt eng prompt u of (r, n, u') \<Rightarrow> (r, u'))
       defaultMaxRetries w"

subsection \<open>Sample engine\<close>

text \<open>
  A provider stub that asks for the tool \<open>get_status\<close> in every response and numbers
  its responses by dots; the world counts the messages sent. The tool is unknown to the
  router; the sub-agent \<open>RESEARCHER\<close> throws, the others answer.
\<close>

definition noArgs :: "unit CallArgs" where
  "noArgs = \<lparr>arg_tasks = None, arg_dispatches = None, arg_prompt = None,
             arg_aspectRatio = None, arg_resolution = None, arg_modelId = None\<rparr>"

definition statusCall :: "unit FunctionCall" where
  "statusCall = \<lparr>fc_name = ''get_status'', fc_args = Some noArgs, fc_id = Some ''c1''\<rparr>"

definition stubEngine :: "(nat, unit, unit) Engine" where
  "stubEngine =
     \<lparr>sendMessage = (\<lambda>m n.
         (Inr \<lparr>functionCalls = [statusCall], resp_text = Some (replicate n (CHR ''.'')),
               groundingChunks = None\<rparr>, n + 1)),
      runTextAgent = (\<lambda>agent prompt n.
         (if agent = ''RESEARCHER''
          then Inl \<lparr>err_message = Some ''upstream timeout'', err_status = None\<rparr>
          else Inr (''ok '' @ prompt), n)),
      generateImage = (\<lambda>prompt n. (Inr (''imagen'', ''data''), n)),
      generateVideo = (\<lambda>cfg n. (Inr ''uri'', n)),
      mcpCallTool = (\<lambda>name args n. (Inl (toolNotFound name), n)),
      newTasks = (\<lambda>ts. []),
      stringifyResults = (\<lambda>rs. concat (map (\<lambda>r. r_agent r @ '':'' @ r_status r @ '';'') rs)),
      stringifyBlock = (\<lambda>c. cb_type c)\<rparr>"

definition threeDispatches :: "Dispatch list" where
  "threeDispatches =
     [\<lparr>d_agent = ''DEVELOPER'', d_prompt = ''build''\<rparr>,
      \<lparr>d_agent = ''RESEARCHER'', d_prompt = ''look up''\<rparr>,
      \<lparr>d_agent = ''HR_MANAGER'', d_prompt = ''hire''\<rparr>]"

definition batchCall :: "unit FunctionCall" where
  "batchCall = \<lparr>fc_name = ''parallel_dispatch'',
                fc_args = Some (noArgs\<lparr>arg_dispatches := Some threeDispatches\<rparr>),
                fc_id = Some ''c2''\<rparr>"

definition batchResponse :: "unit ModelResponse" where
  "batchResponse = \<lparr>functionCalls = [batchCall], resp_text = None, groundingChunks = None\<rparr>"

definition batchAnswer :: FunctionResponse where
  "batchAnswer =
     \<lparr>fr_name = ''parallel_dispatch'',
      fr_response = FrContent
        [\<lparr>part_type = Some ''text'',
          part_text = ''Parallel Thread Batch: DEVELOPER:SUCCESS;RESEARCHER:ERROR;HR_MANAGER:SUCCESS;''\<rparr>],
      fr_id = Some ''c2''\<rparr>"

section \<open>Eviction\<close>












section \<open>Clearing the store\<close>



section \<open>Search and insertion\<close>







text \<open>
  C8. When the embedding provider throws or returns no values for the text,
  \<open>addMemory\<close> returns \<open>null\<close> and the service (array and stored value) is as before,
  and \<open>search\<close> returns the empty list; both return normally.
\<close>

theorem embedding_failure_degrades:
  assumes "embedder c = Inl e \<or> embedder c = Inr None"
  shows "addMemory env embedder now newId c ty tgs s = (None, s) \<and>
         search embedder c limit minSimilarity s = []"
  using assms by (auto simp: addMemory_def search_def getEmbedding_def)

theorem embedding_failure_degrades_witness:
  "(throwingEmbedder ''theme preference'' =
      Inl \<lparr>err_message = Some ''fetch failed'', err_status = None\<rparr> \<or>
    throwingEmbedder ''theme preference'' = Inr None) \<and>
   addMemory browserEnv throwingEmbedder 3000 ''mem-3000-ccccc'' ''theme preference''
     interaction [] darkModeStore = (None, darkModeStore) \<and>
   search throwingEmbedder ''theme preference'' 5 0.6 darkModeStore = [] \<and>
   (silentEmbedder ''theme preference'' =
      Inl \<lparr>err_message = None, err_status = None\<rparr> \<or>
    silentEmbedder ''theme preference'' = Inr None) \<and>
   addMemory browserEnv silentEmbedder 3000 ''mem-3000-ccccc'' ''theme preference''
     interaction [] darkModeStore = (None, darkModeStore) \<and>
   search silentEmbedder ''theme preference'' 5 0.6 darkModeStore = []"
proof -
  have a: "throwingEmbedder ''theme preference'' =
      Inl \<lparr>err_message = Some ''fetch failed'', err_status = None\<rparr> \<or>
    throwingEmbedder ''theme preference'' = Inr None"
    by (simp add: throwingEmbedder_def)
  have b: "silentEmbedder ''theme preference'' =
      Inl \<lparr>err_message = None, err_status = None\<rparr> \<or>
    silentEmbedder ''theme preference'' = Inr None"
    by (simp add: silentEmbedder_def)
  note t = embedding_failure_degrades [where c = "''theme preference''" and env = browserEnv
      and now = 3000 and newId = "''mem-3000-ccccc''" and ty = interaction and tgs = "[]"
      and s = darkModeStore and limit = 5 and minSimilarity = "0.6"]
  show ?thesis
    using a b t [where embedder = throwingEmbedder, OF a] t [where embedder = silentEmbedder, OF b]
    by blast
qed

section \<open>Retry bound\<close>

declare withRetryLoop.simps [simp del]

lemma nthAttempt_shift:
  "nthAttempt fn (snd (fn w)) k = nthAttempt fn w (Suc k)"
proof -
  have "((\<lambda>u. snd (fn u)) ^^ k) ((\<lambda>u. snd (fn u)) w) =
        (\<lambda>u. snd (fn u)) (((\<lambda>u. snd (fn u)) ^^ k) w)"
    by (rule funpow_swap1 [symmetric])
  then show ?thesis
    by (simp add: nthAttempt_def)
qed

lemma withRetryLoop_exhaust:
  assumes "\<forall>k \<le> maxRetries - retries.
             \<exists>e. fst (nthAttempt fn w k) = Inl e \<and> isRateLimit e"
    and "retries \<le> maxRetries"
  shows "withRetryLoop fn maxRetries retries w =
         (fst (nthAttempt fn w (maxRetries - retries)), maxRetries + 1,
          snd (nthAttempt fn w (maxRetries - retries)))"
  using assms
proof (induction "maxRetries - retries" arbitrary: retries w)
  case 0
  then have eq: "retries = maxRetries"
    by simp
  obtain e w' where e: "fn w = (Inl e, w')"
    using "0.prems"(1) by (cases "fn w") (auto simp: nthAttempt_def)
  show ?case
    by (subst withRetryLoop.simps) (simp add: eq e nthAttempt_def)
next
  case (Suc n)
  then have lt: "retries < maxRetries" and n: "n = maxRetries - (retries + 1)"
    by simp_all
  have "\<exists>e. fst (nthAttempt fn w 0) = Inl e \<and> isRateLimit e"
    using Suc.prems(1) by blast
  then obtain e w' where e: "fn w = (Inl e, w')" "isRateLimit e"
    by (cases "fn w") (auto simp: nthAttempt_def)
  have later: "\<forall>k \<le> maxRetries - (retries + 1).
      \<exists>e. fst (nthAttempt fn (snd (fn w)) k) = Inl e \<and> isRateLimit e"
    using Suc.prems(1) lt by (simp add: nthAttempt_shift)
  have step: "withRetryLoop fn maxRetries retries w =
      withRetryLoop fn maxRetries (retries + 1) (snd (fn w))"
    by (subst withRetryLoop.simps) (simp add: e lt)
  have "Suc (maxRetries - (retries + 1)) = maxRetries - retries"
    using lt by simp
  then show ?case
    using Suc.hyps(1) [OF n later] lt
    by (simp add: step nthAttempt_shift)
qed

lemma withRetryLoop_fatal:
  assumes "fn w = (Inl e, w')" and "\<not> isRateLimit e"
  shows "withRetryLoop fn maxRetries retries w = (Inl e, retries + 1, w')"
  by (subst withRetryLoop.simps) (simp add: assms)

lemma isRateLimit_quotaError: "isRateLimit quotaError"
  by (simp add: isRateLimit_def quotaError_def toLowerCase_def toLowerChar_def)

lemma not_isRateLimit_keyError: "\<not> isRateLimit keyError"
  by (simp add: isRateLimit_def keyError_def toLowerCase_def toLowerChar_def)

lemma alwaysRateLimited_state: "((\<lambda>u. snd (alwaysRateLimited u)) ^^ k) w = w + k"
  by (induction k) (simp_all add: alwaysRateLimited_def)

text \<open>
  C2. If each of the first \<open>maxRetries + 1\<close> calls of the wrapped operation throws an
  error that \<open>isRateLimit\<close> accepts, \<open>withRetry\<close> makes exactly \<open>maxRetries + 1\<close> attempts
  and throws the error of the last of them. If the first call throws an error that
  \<open>isRateLimit\<close> rejects, exactly one attempt is made and that error is thrown.
\<close>

theorem withRetry_attempts:
  "((\<forall>k \<le> maxRetries. \<exists>e. fst (nthAttempt fn w k) = Inl e \<and> isRateLimit e) \<longrightarrow>
      withRetry fn maxRetries w =
        (fst (nthAttempt fn w maxRetries), maxRetries + 1, snd (nthAttempt fn w maxRetries)) \<and>
      (\<exists>e. fst (withRetry fn maxRetries w) = Inl e \<and> isRateLimit e)) \<and>
   (\<forall>e w'. fn w = (Inl e, w') \<and> \<not> isRateLimit e \<longrightarrow>
      withRetry fn maxRetries w = (Inl e, 1, w'))"
proof (intro conjI impI allI)
  assume all: "\<forall>k \<le> maxRetries. \<exists>e. fst (nthAttempt fn w k) = Inl e \<and> isRateLimit e"
  then show eq: "withRetry fn maxRetries w =
      (fst (nthAttempt fn w maxRetries), maxRetries + 1, snd (nthAttempt fn w maxRetries))"
    using withRetryLoop_exhaust [of maxRetries 0 fn w] by (simp add: withRetry_def)
  show "\<exists>e. fst (withRetry fn maxRetries w) = Inl e \<and> isRateLimit e"
    using all by (simp add: eq)
next
  fix e w'
  assume "fn w = (Inl e, w') \<and> \<not> isRateLimit e"
  then show "withRetry fn maxRetries w = (Inl e, 1, w')"
    using withRetryLoop_fatal [of fn w e w' maxRetries 0] by (simp add: withRetry_def)
qed

theorem withRetry_attempts_witness:
  "isRateLimit quotaError \<and>
   withRetry alwaysRateLimited defaultMaxRetries 0 = (Inl quotaError, 5, 5) \<and>
   alwaysInvalid 0 = (Inl keyError, 1) \<and> \<not> isRateLimit keyError \<and>
   withRetry alwaysInvalid defaultMaxRetries 0 = (Inl keyError, 1, 1)"
proof -
  have a: "\<forall>k \<le> defaultMaxRetries.
      \<exists>e. fst (nthAttempt alwaysRateLimited 0 k) = Inl e \<and> isRateLimit e"
    using isRateLimit_quotaError by (simp add: nthAttempt_def alwaysRateLimited_def)
  have last: "nthAttempt alwaysRateLimited 0 defaultMaxRetries = (Inl quotaError, 5)"
    by (simp add: nthAttempt_def alwaysRateLimited_state)
      (simp add: alwaysRateLimited_def defaultMaxRetries_def)
  have b: "alwaysInvalid 0 = (Inl keyError, 1) \<and> \<not> isRateLimit keyError"
    using not_isRateLimit_keyError by (simp add: alwaysInvalid_def)
  have "withRetry alwaysRateLimited defaultMaxRetries 0 = (Inl quotaError, 5, 5)"
    using withRetry_attempts [of defaultMaxRetries alwaysRateLimited 0] a last
    by (simp add: defaultMaxRetries_def)
  moreover have "withRetry alwaysInvalid defaultMaxRetries 0 = (Inl keyError, 1, 1)"
    using withRetry_attempts [of defaultMaxRetries alwaysInvalid 0] b by blast
  ultimately show ?thesis
    using isRateLimit_quotaError b by blast
qed

section \<open>At most one active profile\<close>

lemma profiles_saveProfiles: "profiles (snd (saveProfiles env s)) = profiles s"
  by (simp add: saveProfiles_def split: option.split)

lemma profiles_addProfile:
  "profiles (snd (addProfile env uuid name k pf s)) =
   profiles s @ [\<lparr>prof_id = uuid, prof_name = name, key = k, isActive = (profiles s = []),
                   platform = (if pf = Custom \<or> pf = Google
                     then (if startsWith (trim k) ''hf_'' then Huggingface
                           else if startsWith (trim k) ''sk-'' then Openai else pf)
                     else pf)\<rparr>]"
proof -
  have "profiles (snd (addProfile env uuid name k pf s)) =
        profiles (snd (saveProfiles env (s\<lparr>profiles := profiles s @
          [\<lparr>prof_id = uuid, prof_name = name, key = k, isActive = (profiles s = []),
            platform = (if pf = Custom \<or> pf = Google
              then (if startsWith (trim k) ''hf_'' then Huggingface
                    else if startsWith (trim k) ''sk-'' then Openai else pf)
              else pf)\<rparr>]\<rparr>)))"
    by (simp add: addProfile_def Let_def split: prod.split)
  then show ?thesis
    by (simp add: profiles_saveProfiles)
qed

lemma profiles_removeProfile:
  "profiles (snd (removeProfile env i s)) = filter (\<lambda>p. prof_id p \<noteq> i) (profiles s)"
  by (simp add: removeProfile_def profiles_saveProfiles)

lemma profiles_setActiveProfile:
  "profiles (snd (setActiveProfile env i s)) =
   map (\<lambda>p. p\<lparr>isActive := (Some (prof_id p) = i)\<rparr>) (profiles s)"
  by (simp add: setActiveProfile_def profiles_saveProfiles)

lemma distinct_key_filter_le_1:
  "distinct (map f xs) \<Longrightarrow> length (filter (\<lambda>x. f x = a) xs) \<le> 1"
proof (induction xs)
  case Nil
  then show ?case by simp
next
  case (Cons x xs)
  show ?case
  proof (cases "f x = a")
    case True
    then have "filter (\<lambda>x. f x = a) xs = []"
      using Cons.prems by (auto simp: filter_empty_conv image_iff)
    then show ?thesis
      using True by simp
  next
    case False
    then show ?thesis
      using Cons by simp
  qed
qed

lemma routerInv_addProfile:
  assumes "routerInv s" and "uuid \<notin> set (map prof_id (profiles s))"
  shows "routerInv (snd (addProfile env uuid name k pf s))"
  using assms by (cases "profiles s = []") (simp_all add: routerInv_def activeCount_def profiles_addProfile)

lemma routerInv_removeProfile:
  assumes "routerInv s"
  shows "routerInv (snd (removeProfile env i s))"
proof -
  have "filter isActive (filter (\<lambda>p. prof_id p \<noteq> i) (profiles s)) =
        filter (\<lambda>p. prof_id p \<noteq> i) (filter isActive (profiles s))"
    by (simp add: conj_commute)
  then have "length (filter isActive (filter (\<lambda>p. prof_id p \<noteq> i) (profiles s))) \<le>
        length (filter isActive (profiles s))"
    by (simp only: length_filter_le)
  then show ?thesis
    using assms by (simp add: routerInv_def activeCount_def profiles_removeProfile distinct_map_filter)
qed

lemma routerInv_setActiveProfile:
  assumes "routerInv s"
  shows "routerInv (snd (setActiveProfile env i s))"
proof (cases i)
  case None
  then show ?thesis
    using assms
    by (simp add: routerInv_def activeCount_def profiles_setActiveProfile comp_def filter_map)
next
  case (Some a)
  have "distinct (map prof_id (profiles s))"
    using assms by (simp add: routerInv_def)
  then have "length (filter (\<lambda>p. prof_id p = a) (profiles s)) \<le> 1"
    by (rule distinct_key_filter_le_1)
  then show ?thesis
    using assms Some
    by (simp add: routerInv_def activeCount_def profiles_setActiveProfile comp_def filter_map)
qed

lemma routerInv_runCalls:
  "routerInv s \<Longrightarrow> freshIds env cs s \<Longrightarrow> routerInv (runCalls env cs s)"
proof (induction cs arbitrary: s)
  case Nil
  then show ?case by simp
next
  case (Cons c cs)
  then show ?case
    by (cases c)
      (simp_all add: routerInv_addProfile routerInv_removeProfile routerInv_setActiveProfile)
qed

text \<open>
  C10. Starting from a router without profiles, after any sequence of \<open>addProfile\<close>,
  \<open>removeProfile\<close> and \<open>setActiveProfile\<close> calls in which every generated id is new, at
  most one profile is active. \<open>addProfile\<close> appends one profile, active exactly when the
  array was empty, and leaves the others as they were; after \<open>setActiveProfile(id)\<close> a
  profile is active exactly when its id is \<open>id\<close> (none when \<open>id\<close> is \<open>null\<close>), the ids
  being unchanged; \<open>removeProfile(id)\<close> keeps the profiles with another id, unchanged.
\<close>

theorem at_most_one_active:
  assumes "profiles s0 = []" and "freshIds env cs s0"
  shows "activeCount (runCalls env cs s0) \<le> 1 \<and>
         butlast (profiles (snd (addProfile env uuid name k pf s))) = profiles s \<and>
         prof_id (last (profiles (snd (addProfile env uuid name k pf s)))) = uuid \<and>
         isActive (last (profiles (snd (addProfile env uuid name k pf s)))) = (profiles s = []) \<and>
         (\<forall>p \<in> set (profiles (snd (setActiveProfile env i s))).
            isActive p = (Some (prof_id p) = i)) \<and>
         map prof_id (profiles (snd (setActiveProfile env i s))) = map prof_id (profiles s) \<and>
         (\<forall>p \<in> set (profiles (snd (setActiveProfile env None s))). \<not> isActive p) \<and>
         profiles (snd (removeProfile env j s)) = filter (\<lambda>p. prof_id p \<noteq> j) (profiles s)"
proof -
  have "routerInv s0"
    using assms(1) by (simp add: routerInv_def activeCount_def)
  then have "routerInv (runCalls env cs s0)"
    using assms(2) by (rule routerInv_runCalls)
  then have inv: "activeCount (runCalls env cs s0) \<le> 1"
    by (simp add: routerInv_def)
  have set1: "\<forall>p \<in> set (profiles (snd (setActiveProfile env i s))).
      isActive p = (Some (prof_id p) = i)" for i
    by (auto simp: profiles_setActiveProfile)
  have set2: "map prof_id (profiles (snd (setActiveProfile env i s))) = map prof_id (profiles s)"
    by (simp add: profiles_setActiveProfile comp_def)
  have set3: "\<forall>p \<in> set (profiles (snd (setActiveProfile env None s))). \<not> isActive p"
    using set1 [of None] by simp
  show ?thesis
    using inv set1 set2 set3
    by (simp add: profiles_addProfile profiles_removeProfile)
qed

theorem at_most_one_active_witness:
  "profiles emptyRouter = [] \<and> freshIds profileEnv sampleCalls emptyRouter \<and>
   activeCount (runCalls profileEnv sampleCalls emptyRouter) \<le> 1 \<and>
   profiles (runCalls profileEnv sampleCalls emptyRouter) =
     [\<lparr>prof_id = ''u2'', prof_name = ''hub'', key = '' hf_abc'', isActive = True,
       platform = Huggingface\<rparr>]"
proof -
  have e: "profiles emptyRouter = []"
    by (simp add: emptyRouter_def)
  have f: "freshIds profileEnv sampleCalls emptyRouter"
    by (simp add: sampleCalls_def emptyRouter_def profiles_addProfile)
  have r: "profiles (runCalls profileEnv sampleCalls emptyRouter) =
     [\<lparr>prof_id = ''u2'', prof_name = ''hub'', key = '' hf_abc'', isActive = True,
       platform = Huggingface\<rparr>]"
    by (simp add: sampleCalls_def emptyRouter_def profiles_addProfile profiles_removeProfile
        profiles_setActiveProfile trim_def isWhiteSpace_def)
  show ?thesis
    using e f r at_most_one_active [OF e f] by blast
qed

section \<open>Tool resolution\<close>

lemma find_first:
  assumes "xs = pre @ c # post" and "P c" and "\<forall>x \<in> set pre. \<not> P x"
  shows "find P xs = Some c"
  using assms by (induction pre arbitrary: xs) auto

lemma mapValues_mapSet_new:
  "k \<notin> set (map fst m) \<Longrightarrow> mapValues (mapSet k v m) = mapValues m @ [v]"
  by (simp add: mapSet_def mapValues_def)

text \<open>
  C5. \<open>callTool(name, args)\<close> sends the \<open>tools/call\<close> request on the transport of the
  first connection, in the iteration order of the connection map, that is connected
  and has a tool of that name, and returns what that transport's answer converts to;
  this choice depends on the map and the name only, not on the arguments, the time or
  the state of the world. When no connection qualifies it throws the tool-not-found
  error and sends nothing. A connection registered under a new id comes last in the
  iteration order.
\<close>

theorem callTool_first_match:
  "(\<forall>pre c post.
      mapValues conns = pre @ c # post \<and> ownsTool name c \<and> (\<forall>c' \<in> set pre. \<not> ownsTool name c') \<longrightarrow>
      callTool ops now conns name args w =
        (case t_send ops (transport c) (callRequest now name args) w of
           (Inl e, w') \<Rightarrow> (Inl e, w')
         | (Inr response, w') \<Rightarrow> (Inr (toCallResult name response), w'))) \<and>
   ((\<forall>c \<in> set (mapValues conns). \<not> ownsTool name c) \<longrightarrow>
      callTool ops now conns name args w = (Inl (toolNotFound name), w)) \<and>
   (i \<notin> set (map fst conns) \<longrightarrow>
      mapValues (registerSimulatedConnection i t ts conns) =
        mapValues conns @
          [\<lparr>conn_id = i, transport = t, tools = ts, status = Connected, conn_error = None\<rparr>])"
proof (intro conjI allI impI)
  fix pre c post
  assume "mapValues conns = pre @ c # post \<and> ownsTool name c \<and>
    (\<forall>c' \<in> set pre. \<not> ownsTool name c')"
  then have "findTarget conns name = Some c"
    unfolding findTarget_def by (intro find_first [of _ pre c post]) simp_all
  then show "callTool ops now conns name args w =
      (case t_send ops (transport c) (callRequest now name args) w of
         (Inl e, w') \<Rightarrow> (Inl e, w')
       | (Inr response, w') \<Rightarrow> (Inr (toCallResult name response), w'))"
    by (simp add: callTool_def)
next
  assume "\<forall>c \<in> set (mapValues conns). \<not> ownsTool name c"
  then have "findTarget conns name = None"
    by (simp add: findTarget_def find_None_iff)
  then show "callTool ops now conns name args w = (Inl (toolNotFound name), w)"
    by (simp add: callTool_def)
next
  assume "i \<notin> set (map fst conns)"
  then show "mapValues (registerSimulatedConnection i t ts conns) =
      mapValues conns @
        [\<lparr>conn_id = i, transport = t, tools = ts, status = Connected, conn_error = None\<rparr>]"
    unfolding registerSimulatedConnection_def by (rule mapValues_mapSet_new)
qed

theorem callTool_first_match_witness:
  "mapValues twoPackages = [connA, connB] \<and> ownsTool ''X'' connA \<and> ownsTool ''X'' connB \<and>
   snd (callTool loggingTransports 1 twoPackages ''X'' () []) = [(''transport-a'', ''X'')] \<and>
   snd (callTool loggingTransports 2 twoPackages ''X'' () [(''transport-a'', ''X'')]) =
     [(''transport-a'', ''X''), (''transport-a'', ''X'')] \<and>
   snd (callTool loggingTransports 3 twoPackages ''Y'' () []) = [(''transport-b'', ''Y'')] \<and>
   callTool loggingTransports 4 twoPackages ''Z'' () [] = (Inl (toolNotFound ''Z''), [])"
proof -
  have v: "mapValues twoPackages = [connA, connB]"
    by (simp add: twoPackages_def registerSimulatedConnection_def mapSet_def mapValues_def
        connA_def connB_def)
  have a: "ownsTool ''X'' connA" and b: "ownsTool ''X'' connB" and b': "ownsTool ''Y'' connB"
    and a': "\<not> ownsTool ''Y'' connA"
    by (simp_all add: ownsTool_def connA_def connB_def toolX_def toolY_def)
  have z: "\<forall>c \<in> set (mapValues twoPackages). \<not> ownsTool ''Z'' c"
    by (simp add: v ownsTool_def connA_def connB_def toolX_def toolY_def)
  have x: "mapValues twoPackages = [] @ connA # [connB] \<and> ownsTool ''X'' connA \<and>
      (\<forall>c' \<in> set []. \<not> ownsTool ''X'' c')"
    using v a by simp
  have y: "mapValues twoPackages = [connA] @ connB # [] \<and> ownsTool ''Y'' connB \<and>
      (\<forall>c' \<in> set [connA]. \<not> ownsTool ''Y'' c')"
    using v b' a' by simp
  note t = callTool_first_match [where ops = loggingTransports and conns = twoPackages
      and args = "()"]
  have first: "callTool loggingTransports now twoPackages name () w =
      (case t_send loggingTransports (transport c) (callRequest now name ()) w of
         (Inl e, w') \<Rightarrow> (Inl e, w')
       | (Inr response, w') \<Rightarrow> (Inr (toCallResult name response), w'))"
    if "mapValues twoPackages = pre @ c # post \<and> ownsTool name c \<and>
      (\<forall>c' \<in> set pre. \<not> ownsTool name c')" for now name w pre c post
    using t [where name = name and now = now and w = w] that by blast
  have "snd (callTool loggingTransports 1 twoPackages ''X'' () []) = [(''transport-a'', ''X'')]"
    by (subst first [OF x]) (simp add: loggingTransports_def callRequest_def connA_def)
  moreover have "snd (callTool loggingTransports 2 twoPackages ''X'' () [(''transport-a'', ''X'')]) =
      [(''transport-a'', ''X''), (''transport-a'', ''X'')]"
    by (subst first [OF x]) (simp add: loggingTransports_def callRequest_def connA_def)
  moreover have "snd (callTool loggingTransports 3 twoPackages ''Y'' () []) =
      [(''transport-b'', ''Y'')]"
    by (subst first [OF y]) (simp add: loggingTransports_def callRequest_def connB_def)
  moreover have "callTool loggingTransports 4 twoPackages ''Z'' () [] =
      (Inl (toolNotFound ''Z''), [])"
    using t [where name = "''Z''" and now = 4 and w = "[]"] z by blast
  ultimately show ?thesis
    using v a b by blast
qed

section \<open>Turn bound\<close>

declare overseerLoop.simps [simp del]

lemma overseerLoop_bound:
  "turns \<le> maxTurns \<Longrightarrow> fst (snd (overseerLoop eng response turns st)) \<le> maxTurns"
proof (induction eng response turns st rule: overseerLoop.induct)
  case (1 eng response turns st)
  show ?case
  proof (cases "functionCalls response \<noteq> [] \<and> turns < maxTurns")
    case False
    then show ?thesis
      using "1.prems" by (subst overseerLoop.simps) auto
  next
    case True
    obtain r st' where turn: "oneTurn eng response st = (r, st')"
      by (cases "oneTurn eng response st") auto
    show ?thesis
    proof (cases r)
      case (Inl e)
      then show ?thesis
        using True turn by (subst overseerLoop.simps) simp
    next
      case (Inr response')
      have "fst (snd (overseerLoop eng response' (turns + 1) st')) \<le> maxTurns"
        using True turn Inr by (intro "1.IH") simp_all
      then show ?thesis
        using True turn Inr by (subst overseerLoop.simps) simp
    qed
  qed
qed

lemma oneTurn_requests_again:
  assumes "\<forall>m w. \<exists>r w'. sendMessage eng m w = (Inr r, w') \<and> functionCalls r \<noteq> []"
  shows "\<exists>r st'. oneTurn eng response st = (Inr r, st') \<and> functionCalls r \<noteq> []"
proof -
  obtain frs w1 out1 where all: "promiseAll (handleCall eng) (functionCalls response) st =
      (frs, w1, out1)"
    by (cases "promiseAll (handleCall eng) (functionCalls response) st") auto
  obtain r w2 where "sendMessage eng (ToolResults frs) w1 = (Inr r, w2)" "functionCalls r \<noteq> []"
    using assms by blast
  then show ?thesis
    by (simp add: oneTurn_def all)
qed

lemma overseerLoop_exhausts:
  assumes "\<forall>m w. \<exists>r w'. sendMessage eng m w = (Inr r, w') \<and> functionCalls r \<noteq> []"
    and "functionCalls response \<noteq> []" and "turns \<le> maxTurns"
  shows "overseerLoop eng response turns st =
           (fst (afterTurns eng (maxTurns - turns) response st), maxTurns,
            snd (afterTurns eng (maxTurns - turns) response st)) \<and>
         (\<exists>final. fst (afterTurns eng (maxTurns - turns) response st) = Inr final \<and>
            functionCalls final \<noteq> [])"
  using assms(2,3)
proof (induction "maxTurns - turns" arbitrary: turns response st)
  case 0
  then have "turns = maxTurns"
    by simp
  then show ?case
    using "0.prems"(1) by (subst overseerLoop.simps) simp
next
  case (Suc n)
  then have lt: "turns < maxTurns" and n: "n = maxTurns - (turns + 1)"
    by simp_all
  obtain r st' where turn: "oneTurn eng response st = (Inr r, st')" "functionCalls r \<noteq> []"
    using oneTurn_requests_again [OF assms(1)] by blast
  have step: "overseerLoop eng response turns st = overseerLoop eng r (turns + 1) st'"
    using Suc.prems(1) lt turn by (subst overseerLoop.simps) simp
  have unroll: "afterTurns eng (maxTurns - turns) response st =
      afterTurns eng (maxTurns - (turns + 1)) r st'"
    using Suc.hyps(2) [symmetric] n turn by simp
  show ?case
    unfolding step unroll using lt by (intro Suc.hyps(1) [OF n turn(2)]) simp
qed

text \<open>
  C3. For every provider and every tool behaviour the loop of \<open>runOverseerAgent\<close>
  terminates after at most \<open>maxTurns = 6\<close> turns. If every answer of the provider
  requests a tool call, the loop runs exactly six turns and ends with the response
  received after the sixth, whose calls are left pending; \<open>runOverseerAgent\<close>'s attempt
  then returns the text of that response.
\<close>

theorem overseerLoop_turn_bound:
  "maxTurns = 6 \<and>
   fst (snd (overseerLoop eng response 0 st)) \<le> maxTurns \<and>
   fst (snd (overseerAttempt eng prompt w)) \<le> maxTurns \<and>
   ((\<forall>m w. \<exists>r w'. sendMessage eng m w = (Inr r, w') \<and> functionCalls r \<noteq> []) \<longrightarrow>
      (\<exists>first w1 final st' result.
         sendMessage eng (Prompt prompt) w = (Inr first, w1) \<and>
         afterTurns eng maxTurns first (w1, noOutputs) = (Inr final, st') \<and>
         functionCalls final \<noteq> [] \<and>
         overseerLoop eng first 0 (w1, noOutputs) = (Inr final, maxTurns, st') \<and>
         overseerAttempt eng prompt w = (Inr result, maxTurns, fst st') \<and>
         res_text result = resp_text final))"
proof (intro conjI impI)
  show "maxTurns = 6"
    by (simp add: maxTurns_def)
  show bound: "fst (snd (overseerLoop eng response 0 st)) \<le> maxTurns" for response st
    by (rule overseerLoop_bound) simp
  show "fst (snd (overseerAttempt eng prompt w)) \<le> maxTurns"
  proof (cases "sendMessage eng (Prompt prompt) w")
    case (Pair r w1)
    show ?thesis
    proof (cases r)
      case (Inl e)
      then show ?thesis
        using Pair by (simp add: overseerAttempt_def)
    next
      case (Inr first)
      obtain q n w2 out where loop: "overseerLoop eng first 0 (w1, noOutputs) = (q, n, w2, out)"
        by (cases "overseerLoop eng first 0 (w1, noOutputs)") auto
      then have "n \<le> maxTurns"
        using bound [of first "(w1, noOutputs)"] by simp
      then show ?thesis
        using Pair Inr loop by (cases q) (simp_all add: overseerAttempt_def)
    qed
  qed
next
  assume always: "\<forall>m w. \<exists>r w'. sendMessage eng m w = (Inr r, w') \<and> functionCalls r \<noteq> []"
  then obtain first w1 where first: "sendMessage eng (Prompt prompt) w = (Inr first, w1)"
      "functionCalls first \<noteq> []"
    by blast
  have loop: "overseerLoop eng first 0 (w1, noOutputs) =
      (fst (afterTurns eng maxTurns first (w1, noOutputs)), maxTurns,
       snd (afterTurns eng maxTurns first (w1, noOutputs)))"
    and "\<exists>final. fst (afterTurns eng maxTurns first (w1, noOutputs)) = Inr final \<and>
      functionCalls final \<noteq> []"
    using overseerLoop_exhausts [OF always first(2), of 0 "(w1, noOutputs)"] by simp_all
  then obtain final st' where final: "afterTurns eng maxTurns first (w1, noOutputs) = (Inr final, st')"
      "functionCalls final \<noteq> []"
    by (cases "afterTurns eng maxTurns first (w1, noOutputs)") auto
  have loop': "overseerLoop eng first 0 (w1, noOutputs) = (Inr final, maxTurns, st')"
    using loop final by simp
  obtain w2 out where st': "st' = (w2, out)"
    by (cases st') auto
  have "overseerAttempt eng prompt w =
      (Inr \<lparr>res_text = resp_text final, res_groundingLinks = groundingLinksOf final,
            res_tasks = tasks out, res_videoUri = videoUri out, res_image = image out\<rparr>,
       maxTurns, fst st')"
    using first loop' st' by (simp add: overseerAttempt_def)
  then show "\<exists>first w1 final st' result.
      sendMessage eng (Prompt prompt) w = (Inr first, w1) \<and>
      afterTurns eng maxTurns first (w1, noOutputs) = (Inr final, st') \<and>
      functionCalls final \<noteq> [] \<and>
      overseerLoop eng first 0 (w1, noOutputs) = (Inr final, maxTurns, st') \<and>
      overseerAttempt eng prompt w = (Inr result, maxTurns, fst st') \<and>
      res_text result = resp_text final"
    using first final loop' by (intro exI [of _ first] exI [of _ w1] exI [of _ final]
        exI [of _ st']) simp
qed

theorem overseerLoop_turn_bound_witness:
  "(\<forall>m w. \<exists>r w'. sendMessage stubEngine m w = (Inr r, w') \<and> functionCalls r \<noteq> []) \<and>
   (\<exists>result. overseerAttempt stubEngine ''go'' 0 = (Inr result, 6, 7) \<and>
      res_text result = Some ''......'')"
proof -
  have always: "\<forall>m w. \<exists>r w'. sendMessage stubEngine m w = (Inr r, w') \<and> functionCalls r \<noteq> []"
    by (simp add: stubEngine_def)
  have turn: "oneTurn stubEngine
        \<lparr>functionCalls = [statusCall], resp_text = t, groundingChunks = None\<rparr> (n, noOutputs) =
      (Inr \<lparr>functionCalls = [statusCall], resp_text = Some (replicate n (CHR ''.'')),
            groundingChunks = None\<rparr>, n + 1, noOutputs)" for t n
    by (simp add: oneTurn_def handleCall_def handleCallTry_def taskListStep_def dispatchesOf_def
        videoStep_def toolStep_def statusCall_def stubEngine_def)
  have six: "afterTurns stubEngine maxTurns
        \<lparr>functionCalls = [statusCall], resp_text = Some [], groundingChunks = None\<rparr>
        (1, noOutputs) =
      (Inr \<lparr>functionCalls = [statusCall], resp_text = Some ''......'', groundingChunks = None\<rparr>,
       7, noOutputs)"
    by (simp add: maxTurns_def eval_nat_numeral turn)
  have start: "sendMessage stubEngine (Prompt ''go'') 0 =
      (Inr \<lparr>functionCalls = [statusCall], resp_text = Some [], groundingChunks = None\<rparr>, 1)"
    by (simp add: stubEngine_def)
  obtain first w1 final st' result where
    "sendMessage stubEngine (Prompt ''go'') 0 = (Inr first, w1)"
    "afterTurns stubEngine maxTurns first (w1, noOutputs) = (Inr final, st')"
    "overseerAttempt stubEngine ''go'' 0 = (Inr result, maxTurns, fst st')"
    "res_text result = resp_text final"
    using overseerLoop_turn_bound [of stubEngine _ _ "''go''" 0] always by blast
  then have "overseerAttempt stubEngine ''go'' 0 = (Inr result, 6, 7) \<and>
      res_text result = Some ''......''"
    using start six by (simp add: maxTurns_def)
  then show ?thesis
    using always by blast
qed

section \<open>Parallel dispatch\<close>

lemma promiseAll_length: "length (fst (promiseAll f xs s)) = length xs"
  by (induction xs arbitrary: s) (simp_all add: split_def Let_def)

lemma promiseAll_all2:
  assumes "\<And>x s. P x (fst (f x s))"
  shows "list_all2 P xs (fst (promiseAll f xs s))"
  using assms by (induction xs arbitrary: s) (simp_all add: split_def Let_def)

lemma runDispatch_tagged:
  "r_agent (fst (runDispatch eng d s)) = d_agent d \<and>
   r_prompt (fst (runDispatch eng d s)) = d_prompt d \<and>
   (case fst (runAgentFor eng d s) of
      Inr output \<Rightarrow>
        r_status (fst (runDispatch eng d s)) = ''SUCCESS'' \<and>
        r_response (fst (runDispatch eng d s)) = Some output \<and>
        r_error (fst (runDispatch eng d s)) = None
    | Inl e \<Rightarrow>
        r_status (fst (runDispatch eng d s)) = ''ERROR'' \<and>
        r_response (fst (runDispatch eng d s)) = None \<and>
        r_error (fst (runDispatch eng d s)) = err_message e)"
  by (cases "runAgentFor eng d s") (simp add: runDispatch_def split: sum.split)

lemma handleCall_parallel:
  assumes "fc_name call = ''parallel_dispatch''" and "fc_args call = Some a"
    and "arg_dispatches a = Some ds"
  shows "handleCall eng call (w, out) =
         (\<lparr>fr_name = ''parallel_dispatch'',
           fr_response = FrContent
             [\<lparr>part_type = Some ''text'',
               part_text = ''Parallel Thread Batch: '' @
                 stringifyResults eng (fst (promiseAll (runDispatch eng) ds (w, out)))\<rparr>],
           fr_id = fc_id call\<rparr>,
          snd (promiseAll (runDispatch eng) ds (w, out)))"
  using assms
  by (simp add: handleCall_def handleCallTry_def taskListStep_def dispatchesOf_def split_def)

text \<open>
  C4. A \<open>parallel_dispatch\<close> call with \<open>N\<close> dispatches is answered with one function
  response whose single text part is \<open>Parallel Thread Batch: \<close> followed by the
  serialisation of \<open>N\<close> result objects, one per dispatch and in their order; each
  carries its dispatch's agent and prompt and is tagged \<open>SUCCESS\<close> with the output when
  its sub-agent returned, \<open>ERROR\<close> with the message when it threw. The response is an
  ordinary content response, and the turn goes on: it is what the loop sends to the
  provider.
\<close>

theorem parallel_dispatch_joins:
  assumes "fc_name call = ''parallel_dispatch''" and "fc_args call = Some a"
    and "arg_dispatches a = Some ds"
  shows "\<exists>results st'.
           handleCall eng call st =
             (\<lparr>fr_name = ''parallel_dispatch'',
               fr_response = FrContent
                 [\<lparr>part_type = Some ''text'',
                   part_text = ''Parallel Thread Batch: '' @ stringifyResults eng results\<rparr>],
               fr_id = fc_id call\<rparr>, st') \<and>
           length results = length ds \<and>
           list_all2
             (\<lambda>d r. r_agent r = d_agent d \<and> r_prompt r = d_prompt d \<and>
                (\<exists>s0. case fst (runAgentFor eng d s0) of
                        Inr output \<Rightarrow>
                          r_status r = ''SUCCESS'' \<and> r_response r = Some output \<and>
                          r_error r = None
                      | Inl e \<Rightarrow>
                          r_status r = ''ERROR'' \<and> r_response r = None \<and>
                          r_error r = err_message e))
             ds results \<and>
           oneTurn eng \<lparr>functionCalls = [call], resp_text = t, groundingChunks = g\<rparr> st =
             (case sendMessage eng (ToolResults [fst (handleCall eng call st)]) (fst st') of
                (r, w2) \<Rightarrow> (r, w2, snd st'))"
proof -
  obtain w out where st: "st = (w, out)"
    by (cases st) auto
  let ?all = "promiseAll (runDispatch eng) ds (w, out)"
  have answer: "handleCall eng call st =
      (\<lparr>fr_name = ''parallel_dispatch'',
        fr_response = FrContent
          [\<lparr>part_type = Some ''text'',
            part_text = ''Parallel Thread Batch: '' @ stringifyResults eng (fst ?all)\<rparr>],
        fr_id = fc_id call\<rparr>, snd ?all)"
    unfolding st using assms by (rule handleCall_parallel)
  have len: "length (fst ?all) = length ds"
    by (rule promiseAll_length)
  have tagged: "list_all2
      (\<lambda>d r. r_agent r = d_agent d \<and> r_prompt r = d_prompt d \<and>
         (\<exists>s0. case fst (runAgentFor eng d s0) of
                 Inr output \<Rightarrow>
                   r_status r = ''SUCCESS'' \<and> r_response r = Some output \<and> r_error r = None
               | Inl e \<Rightarrow>
                   r_status r = ''ERROR'' \<and> r_response r = None \<and>
                   r_error r = err_message e))
      ds (fst ?all)"
  proof (rule promiseAll_all2)
    fix d s
    show "r_agent (fst (runDispatch eng d s)) = d_agent d \<and>
        r_prompt (fst (runDispatch eng d s)) = d_prompt d \<and>
        (\<exists>s0. case fst (runAgentFor eng d s0) of
                Inr output \<Rightarrow>
                  r_status (fst (runDispatch eng d s)) = ''SUCCESS'' \<and>
                  r_response (fst (runDispatch eng d s)) = Some output \<and>
                  r_error (fst (runDispatch eng d s)) = None
              | Inl e \<Rightarrow>
                  r_status (fst (runDispatch eng d s)) = ''ERROR'' \<and>
                  r_response (fst (runDispatch eng d s)) = None \<and>
                  r_error (fst (runDispatch eng d s)) = err_message e)"
      using runDispatch_tagged [of eng d s] by blast
  qed
  have turn: "oneTurn eng \<lparr>functionCalls = [call], resp_text = t, groundingChunks = g\<rparr> st =
      (case sendMessage eng (ToolResults [fst (handleCall eng call st)]) (fst (snd ?all)) of
         (r, w2) \<Rightarrow> (r, w2, snd (snd ?all)))"
    by (simp add: oneTurn_def answer split_def Let_def)
  show ?thesis
    using answer len tagged turn by blast
qed

theorem parallel_dispatch_joins_witness:
  "fc_name batchCall = ''parallel_dispatch'' \<and>
   fc_args batchCall = Some (noArgs\<lparr>arg_dispatches := Some threeDispatches\<rparr>) \<and>
   fst (runAgentFor stubEngine (threeDispatches ! 1) (0, noOutputs)) =
     Inl \<lparr>err_message = Some ''upstream timeout'', err_status = None\<rparr> \<and>
   (\<exists>results st'.
      handleCall stubEngine batchCall (0, noOutputs) =
        (\<lparr>fr_name = ''parallel_dispatch'',
          fr_response = FrContent
            [\<lparr>part_type = Some ''text'',
              part_text = ''Parallel Thread Batch: '' @ stringifyResults stubEngine results\<rparr>],
          fr_id = fc_id batchCall\<rparr>, st') \<and>
      length results = 3) \<and>
   fst (handleCall stubEngine batchCall (0, noOutputs)) = batchAnswer \<and>
   fst (oneTurn stubEngine batchResponse (0, noOutputs)) =
     fst (sendMessage stubEngine (ToolResults [batchAnswer]) 0)"
proof -
  have n: "fc_name batchCall = ''parallel_dispatch''"
    and a: "fc_args batchCall = Some (noArgs\<lparr>arg_dispatches := Some threeDispatches\<rparr>)"
    and d: "arg_dispatches (noArgs\<lparr>arg_dispatches := Some threeDispatches\<rparr>) =
      Some threeDispatches"
    by (simp_all add: batchCall_def)
  have fails: "fst (runAgentFor stubEngine (threeDispatches ! 1) (0, noOutputs)) =
      Inl \<lparr>err_message = Some ''upstream timeout'', err_status = None\<rparr>"
    by (simp add: runAgentFor_def threeDispatches_def stubEngine_def textAgents_def)
  have full: "handleCall stubEngine batchCall (0, noOutputs) = (batchAnswer, 0, noOutputs)"
    by (subst handleCall_parallel [OF n a d])
      (simp add: batchCall_def batchAnswer_def threeDispatches_def runDispatch_def
        runAgentFor_def textAgents_def stubEngine_def)
  have answer: "fst (handleCall stubEngine batchCall (0, noOutputs)) = batchAnswer"
    by (simp add: full)
  have turn: "fst (oneTurn stubEngine batchResponse (0, noOutputs)) =
      fst (sendMessage stubEngine (ToolResults [batchAnswer]) 0)"
    by (simp add: oneTurn_def batchResponse_def full split_def)
  have "\<exists>results st'.
      handleCall stubEngine batchCall (0, noOutputs) =
        (\<lparr>fr_name = ''parallel_dispatch'',
          fr_response = FrContent
            [\<lparr>part_type = Some ''text'',
              part_text = ''Parallel Thread Batch: '' @ stringifyResults stubEngine results\<rparr>],
          fr_id = fc_id batchCall\<rparr>, st') \<and>
      length results = 3"
  proof -
    have three: "length threeDispatches = 3"
      by (simp add: threeDispatches_def)
    obtain results st' where
      "handleCall stubEngine batchCall (0, noOutputs) =
        (\<lparr>fr_name = ''parallel_dispatch'',
          fr_response = FrContent
            [\<lparr>part_type = Some ''text'',
              part_text = ''Parallel Thread Batch: '' @ stringifyResults stubEngine results\<rparr>],
          fr_id = fc_id batchCall\<rparr>, st')"
      "length results = length threeDispatches"
      using parallel_dispatch_joins [OF n a d, where eng = stubEngine and st = "(0, noOutputs)"
          and t = None and g = None]
      by blast
    then show ?thesis
      unfolding three by blast
  qed
  then show ?thesis
    using n a fails answer turn by blast
qed

section \<open>Cosine similarity in exact arithmetic\<close>

text \<open>
  The definition of \<open>cosineSimilarity\<close> above computes with real numbers. On that
  reading it is symmetric, \<open>1\<close> on equal non-zero vectors and \<open>0\<close> on zero vectors and
  on vectors of different lengths. The source computes with IEEE doubles, where the
  products, sums, square roots and the quotient are rounded, so these lemmas are about
  the formula and not about the rounded results.
\<close>

lemma cosine_foldl:
  "foldl (\<lambda>(d, ma, mb) (a, b). (d + a * b, ma + a * a, mb + b * b)) (d0, ma0, mb0) ps =
   (d0 + (\<Sum>(a, b)\<leftarrow>ps. a * b), ma0 + (\<Sum>(a, b)\<leftarrow>ps. a * a),
    mb0 + (\<Sum>(a, b)\<leftarrow>ps. b * (b::real)))"
  by (induction ps arbitrary: d0 ma0 mb0) (auto simp: algebra_simps)

lemma zip_sums:
  assumes "length xs = length ys"
  shows "(\<Sum>(a, b)\<leftarrow>zip xs ys. a * a) = (\<Sum>a\<leftarrow>xs. a * (a::real))"
    and "(\<Sum>(a, b)\<leftarrow>zip xs ys. b * b) = (\<Sum>b\<leftarrow>ys. b * (b::real))"
    and "(\<Sum>(a, b)\<leftarrow>zip xs ys. a * b) = (\<Sum>(b, a)\<leftarrow>zip ys xs. b * a)"
  using assms by (induction xs ys rule: list_induct2) (simp_all add: mult.commute)

lemma cosineSimilarity_exact:
  assumes "length vecA = length vecB"
  shows "cosineSimilarity vecA vecB =
         (if sqrt (\<Sum>a\<leftarrow>vecA. a * a) * sqrt (\<Sum>b\<leftarrow>vecB. b * b) = 0 then 0
          else (\<Sum>(a, b)\<leftarrow>zip vecA vecB. a * b) /
               (sqrt (\<Sum>a\<leftarrow>vecA. a * a) * sqrt (\<Sum>b\<leftarrow>vecB. b * b)))"
  using assms by (simp add: cosineSimilarity_def cosine_foldl zip_sums Let_def)

lemma cosineSimilarity_exact_sym: "cosineSimilarity a b = cosineSimilarity b a"
proof (cases "length a = length b")
  case True
  then show ?thesis
    using zip_sums(3) [OF True]
    by (simp add: cosineSimilarity_exact mult.commute)
next
  case False
  then show ?thesis
    by (auto simp: cosineSimilarity_def)
qed

lemma sum_squares_zero: "(\<Sum>a\<leftarrow>xs. a * (a::real)) = 0 \<longleftrightarrow> (\<forall>x \<in> set xs. x = 0)"
proof (induction xs)
  case Nil
  then show ?case by simp
next
  case (Cons x xs)
  have "0 \<le> (\<Sum>a\<leftarrow>xs. a * a)"
    by (rule sum_list_nonneg) auto
  then show ?case
    using Cons by (auto simp: add_nonneg_eq_0_iff)
qed

lemma cosineSimilarity_exact_self:
  assumes "\<exists>x \<in> set a. x \<noteq> 0"
  shows "cosineSimilarity a a = 1"
proof -
  have nz: "(\<Sum>x\<leftarrow>a. x * x) \<noteq> 0"
    using assms by (simp add: sum_squares_zero)
  have "(\<Sum>(x, y)\<leftarrow>zip a a. x * y) = (\<Sum>x\<leftarrow>a. x * x)"
    by (induction a) simp_all
  moreover have "0 \<le> (\<Sum>x\<leftarrow>a. x * x)"
    by (rule sum_list_nonneg) auto
  ultimately show ?thesis
    using nz by (simp add: cosineSimilarity_exact)
qed

lemma cosineSimilarity_exact_zero:
  assumes "(\<forall>x \<in> set a. x = 0) \<or> (\<forall>x \<in> set b. x = 0) \<or> length a \<noteq> length b"
  shows "cosineSimilarity a b = 0"
proof (cases "length a = length b")
  case True
  then show ?thesis
    using assms sum_squares_zero [of a] sum_squares_zero [of b]
    by (auto simp: cosineSimilarity_exact)
next
  case False
  then show ?thesis
    by (simp add: cosineSimilarity_def)
qed

end
